theory Spec2Isabelle
  imports Main "HOL-Library.Sublist"
begin

section \<open>Values shared by the backend packages\<close>

text \<open>
  Identifiers (\<^verbatim>\<open>uuid.UUID\<close>) are carried in their canonical text form, so that
  \<^verbatim>\<open>String()\<close> is the identity. A \<^verbatim>\<open>time.Time\<close> is a point on an integer time
  line (seconds), \<^verbatim>\<open>Before\<close> is \<open><\<close>. A nullable Go pointer is an \<open>option\<close>.
\<close>

type_synonym uuid = string
type_synonym time = int

subsection \<open>internal/model/todo: enumerations and the task record\<close>

type_synonym Status = string
type_synonym Priority = string

definition StatusDraft :: Status where "StatusDraft = ''draft''"
definition StatusActive :: Status where "StatusActive = ''active''"
definition StatusCompleted :: Status where "StatusCompleted = ''completed''"
definition StatusArchived :: Status where "StatusArchived = ''archived''"

definition PriorityLow :: Priority where "PriorityLow = ''low''"
definition PriorityMedium :: Priority where "PriorityMedium = ''medium''"
definition PriorityHigh :: Priority where "PriorityHigh = ''high''"

record Metadata =
  Tags :: "string list"
  Reminder :: "string option"
  Color :: "string option"
  Difficulty :: "string option"

record Base =
  ID :: uuid
  CreatedAt :: time
  UpdatedAt :: time

record Todo = Base +
  UserID :: string
  Title :: string
  Description :: string
  Priority :: Priority
  Status :: Status
  DueDate :: "time option"
  CompletedAt :: "time option"
  ParentTodoID :: "uuid option"
  CategoryID :: "uuid option"
  Metadata :: "Metadata option"
  SortOrder :: int

text \<open>
  The methods of \<^verbatim>\<open>Todo\<close>. \<^verbatim>\<open>time.Now()\<close> is the argument \<open>now\<close>. \<^verbatim>\<open>IsOverdue\<close> is the
  method that the reference document quotes from \<^verbatim>\<open>internal/model/todo/todo.go\<close>; its
  illustrations of value receivers show a shorter body without the test of the status.
  \<^verbatim>\<open>
  func (t *Todo) IsOverdue() bool {
      return t.DueDate != nil && t.DueDate.Before(time.Now()) && t.Status != StatusCompleted
  }
  func (t *Todo) CanHaveChildren() bool { return t.ParentTodoID == nil }
  func (t *Todo) MarkComplete() { now := time.Now(); t.CompletedAt = &now; t.Status = StatusCompleted }
  \<close>
\<close>

definition IsOverdue :: "time \<Rightarrow> Todo \<Rightarrow> bool" where
  "IsOverdue now t =
     (case DueDate t of
        None \<Rightarrow> False
      | Some d \<Rightarrow> d < now \<and> Status t \<noteq> StatusCompleted)"

definition CanHaveChildren :: "Todo \<Rightarrow> bool" where
  "CanHaveChildren t = (ParentTodoID t = None)"

definition MarkComplete :: "time \<Rightarrow> Todo \<Rightarrow> Todo" where
  "MarkComplete now t = t\<lparr>CompletedAt := Some now, Status := StatusCompleted\<rparr>"

subsection \<open>internal/errs: the HTTP error value and its constructors\<close>

record FieldError =
  fe_Field :: string
  fe_Error :: string

record Action =
  a_Type :: string
  a_Message :: string
  a_Value :: string

record HTTPError =
  e_Code :: string
  e_Message :: string
  e_Status :: int
  e_Override :: bool
  e_Errors :: "FieldError list"
  e_Action :: "Action option"

definition StatusBadRequest :: int where "StatusBadRequest = 400"
definition StatusUnauthorized :: int where "StatusUnauthorized = 401"
definition StatusForbidden :: int where "StatusForbidden = 403"
definition StatusNotFound :: int where "StatusNotFound = 404"
definition StatusInternalServerError :: int where "StatusInternalServerError = 500"
definition StatusCreated :: int where "StatusCreated = 201"

definition NewBadRequestError ::
  "string \<Rightarrow> bool \<Rightarrow> string option \<Rightarrow> FieldError list \<Rightarrow> Action option \<Rightarrow> HTTPError" where
  "NewBadRequestError message override code errors action =
     \<lparr>e_Code = (case code of None \<Rightarrow> ''BAD_REQUEST'' | Some c \<Rightarrow> c),
      e_Message = message,
      e_Status = StatusBadRequest,
      e_Override = override,
      e_Errors = errors,
      e_Action = action\<rparr>"

definition NewUnauthorizedError :: "string \<Rightarrow> bool \<Rightarrow> HTTPError" where
  "NewUnauthorizedError message override =
     \<lparr>e_Code = ''UNAUTHORIZED'', e_Message = message, e_Status = StatusUnauthorized,
      e_Override = override, e_Errors = [], e_Action = None\<rparr>"

definition NewForbiddenError :: "string \<Rightarrow> bool \<Rightarrow> HTTPError" where
  "NewForbiddenError message override =
     \<lparr>e_Code = ''FORBIDDEN'', e_Message = message, e_Status = StatusForbidden,
      e_Override = override, e_Errors = [], e_Action = None\<rparr>"

definition NewNotFoundError :: "string \<Rightarrow> bool \<Rightarrow> string option \<Rightarrow> HTTPError" where
  "NewNotFoundError message override code =
     \<lparr>e_Code = (case code of None \<Rightarrow> ''NOT_FOUND'' | Some c \<Rightarrow> c),
      e_Message = message,
      e_Status = StatusNotFound,
      e_Override = override,
      e_Errors = [],
      e_Action = None\<rparr>"

definition NewInternalServerError :: HTTPError where
  "NewInternalServerError =
     \<lparr>e_Code = ''INTERNAL_SERVER_ERROR'', e_Message = ''Internal Server Error'',
      e_Status = StatusInternalServerError, e_Override = False, e_Errors = [], e_Action = None\<rparr>"

subsection \<open>Go error values\<close>

text \<open>
  The error values that travel through the backend: the HTTP error of \<^verbatim>\<open>internal/errs\<close>,
  the store driver's errors (\<^verbatim>\<open>*pgconn.PgError\<close> with its SQLSTATE code and message, the
  sentinel \<^verbatim>\<open>pgx.ErrNoRows\<close>), any other error known only by its message, and an error
  wrapped with a context message (\<^verbatim>\<open>fmt.Errorf("...: %w", err)\<close>, \<^verbatim>\<open>errors.Wrap\<close>).
  \<^verbatim>\<open>errors.As\<close> and \<^verbatim>\<open>errors.Is\<close> walk the chain of wrapped errors. \<open>error_string\<close> is
  \<^verbatim>\<open>Error()\<close>: for a \<^verbatim>\<open>PgError\<close> the severity, the message and the SQLSTATE code in
  parentheses; for a wrapped error the context message, a colon and the text of the
  wrapped error; for the HTTP error, whose \<^verbatim>\<open>Error\<close> method is not part of the sources,
  its message.
\<close>

record PgError =
  pg_Severity :: string
  pg_Code :: string
  pg_Message :: string

datatype error =
    HTTPErr HTTPError
  | PgErr PgError
  | ErrNoRows
  | OtherErr string
  | Wrapf string error

fun error_string :: "error \<Rightarrow> string" where
  "error_string (HTTPErr h) = e_Message h"
| "error_string (PgErr p) = pg_Severity p @ '': '' @ pg_Message p @ '' (SQLSTATE '' @ pg_Code p @ '')''"
| "error_string ErrNoRows = ''no rows in result set''"
| "error_string (OtherErr m) = m"
| "error_string (Wrapf m e) = m @ '': '' @ error_string e"

fun errors_As_PgError :: "error \<Rightarrow> PgError option" where
  "errors_As_PgError (PgErr p) = Some p"
| "errors_As_PgError (Wrapf m e) = errors_As_PgError e"
| "errors_As_PgError (HTTPErr h) = None"
| "errors_As_PgError ErrNoRows = None"
| "errors_As_PgError (OtherErr m) = None"

fun errors_Is_ErrNoRows :: "error \<Rightarrow> bool" where
  "errors_Is_ErrNoRows ErrNoRows = True"
| "errors_Is_ErrNoRows (Wrapf m e) = errors_Is_ErrNoRows e"
| "errors_Is_ErrNoRows (HTTPErr h) = False"
| "errors_Is_ErrNoRows (PgErr p) = False"
| "errors_Is_ErrNoRows (OtherErr m) = False"

subsection \<open>internal/sqlerr: HandleSQLError\<close>

text \<open>
  \<^verbatim>\<open>
  func HandleSQLError(err error) error {
      var pgErr *pgconn.PgError
      if errors.As(err, &pgErr) {
          switch pgErr.Code {
          case "23505": return errs.NewBadRequestError("Record already exists", false, nil, nil, nil)
          case "23503": return errs.NewBadRequestError("Referenced record not found", false, nil, nil, nil)
          case "23502": return errs.NewBadRequestError("Required field missing", false, nil, nil, nil)
          }
      }
      if errors.Is(err, pgx.ErrNoRows) {
          return errs.NewNotFoundError("Record not found", false, nil)
      }
      return errs.NewInternalServerError()
  }
  \<close>
\<close>

definition HandleSQLError :: "error \<Rightarrow> error" where
  "HandleSQLError err =
     (let by_code =
            (case errors_As_PgError err of
               None \<Rightarrow> None
             | Some pgErr \<Rightarrow>
                 if pg_Code pgErr = ''23505''
                   then Some (HTTPErr (NewBadRequestError ''Record already exists'' False None [] None))
                 else if pg_Code pgErr = ''23503''
                   then Some (HTTPErr (NewBadRequestError ''Referenced record not found'' False None [] None))
                 else if pg_Code pgErr = ''23502''
                   then Some (HTTPErr (NewBadRequestError ''Required field missing'' False None [] None))
                 else None)
      in case by_code of
           Some translated \<Rightarrow> translated
         | None \<Rightarrow>
             if errors_Is_ErrNoRows err
             then HTTPErr (NewNotFoundError ''Record not found'' False None)
             else HTTPErr NewInternalServerError)"

section \<open>The relational store\<close>

text \<open>
  The tables as lists of rows. \<open>statements\<close> records, in order, every data-modifying
  statement that a repository method hands to the connection pool, whether the store
  accepts it or not. The rows of comments and of attachments, whose Go declarations are
  not part of the sources, have the columns that the documented query and the upload
  call name.
\<close>

record Category = Base +
  cat_UserID :: string
  cat_Name :: string
  cat_Color :: string
  cat_Description :: "string option"

record CommentRow =
  co_id :: uuid
  co_todo_id :: uuid
  co_user_id :: string
  co_content :: string

record TodoAttachment = Base +
  att_TodoID :: uuid
  att_UploadedBy :: string
  att_S3Key :: string
  att_FileName :: string
  att_FileSize :: int
  att_ContentType :: string

record Database =
  tbl_todos :: "Todo list"
  tbl_categories :: "Category list"
  tbl_comments :: "CommentRow list"
  tbl_todo_attachments :: "TodoAttachment list"
  statements :: "string list"

text \<open>
  What the store engine and the driver contribute to one repository call: the clock, the
  identifier generated for an inserted row, the \<^verbatim>\<open>sort_order\<close> column default (the
  migration that declares it is not part of the sources), and the failures the driver
  may report: \<open>env_query_err\<close> is the error returned by \<^verbatim>\<open>Pool.Query\<close> or
  \<^verbatim>\<open>QueryRow(...).Scan\<close>, \<open>env_collect_err\<close> the one returned by \<^verbatim>\<open>pgx.CollectOneRow\<close>.
\<close>

record Env =
  env_now :: time
  env_new_uuid :: uuid
  env_sort_order_default :: int
  env_query_err :: "error option"
  env_collect_err :: "error option"

datatype sqlval =
    SqlNull
  | SqlText string
  | SqlTime time
  | SqlUUID uuid
  | SqlJSON Metadata
  | SqlInt int

type_synonym NamedArgs = "(string \<times> sqlval) list"

fun text_or :: "string \<Rightarrow> sqlval option \<Rightarrow> string" where
  "text_or d (Some (SqlText s)) = s"
| "text_or d _ = d"

fun int_or :: "int \<Rightarrow> sqlval option \<Rightarrow> int" where
  "int_or d (Some (SqlInt i)) = i"
| "int_or d _ = d"

fun time_opt :: "sqlval option \<Rightarrow> time option" where
  "time_opt (Some (SqlTime t)) = Some t"
| "time_opt _ = None"

fun uuid_opt :: "sqlval option \<Rightarrow> uuid option" where
  "uuid_opt (Some (SqlUUID u)) = Some u"
| "uuid_opt _ = None"

fun json_opt :: "sqlval option \<Rightarrow> Metadata option" where
  "json_opt (Some (SqlJSON m)) = Some m"
| "json_opt _ = None"

definition nullable :: "('a \<Rightarrow> sqlval) \<Rightarrow> 'a option \<Rightarrow> sqlval" where
  "nullable f x = (case x of None \<Rightarrow> SqlNull | Some v \<Rightarrow> f v)"

text \<open>
  The value an \<^verbatim>\<open>INSERT\<close> gives a column: the argument bound to it when the statement
  lists the column, nothing (so that the column default applies) otherwise.
\<close>

definition col_value :: "string list \<Rightarrow> NamedArgs \<Rightarrow> string \<Rightarrow> sqlval option" where
  "col_value cols args c = (if c \<in> set cols then map_of args c else None)"

text \<open>
  Modelled from the spec: the \<^verbatim>\<open>todos\<close> table (its migration is not part of the
  sources). A column that the statement does not list takes its default: the status
  defaults to "active", there is no completion timestamp, and identifier and both
  timestamps are assigned by the store at creation.
\<close>

definition todos_status_default :: Status where
  "todos_status_default = StatusActive"

definition todos_insert_row :: "Env \<Rightarrow> (string \<Rightarrow> sqlval option) \<Rightarrow> Todo" where
  "todos_insert_row env v =
     \<lparr>ID = env_new_uuid env,
      CreatedAt = env_now env,
      UpdatedAt = env_now env,
      UserID = text_or [] (v ''user_id''),
      Title = text_or [] (v ''title''),
      Description = text_or [] (v ''description''),
      Priority = text_or [] (v ''priority''),
      Status = text_or todos_status_default (v ''status''),
      DueDate = time_opt (v ''due_date''),
      CompletedAt = time_opt (v ''completed_at''),
      ParentTodoID = uuid_opt (v ''parent_todo_id''),
      CategoryID = uuid_opt (v ''category_id''),
      Metadata = json_opt (v ''metadata''),
      SortOrder = int_or (env_sort_order_default env) (v ''sort_order'')\<rparr>"

section \<open>internal/repository: TodoRepository.CreateTodo\<close>

text \<open>
  Modelled from the spec: \<^verbatim>\<open>todo.CreateTodoPayload\<close>, whose declaration is not part of
  the sources. The fields are the ones \<^verbatim>\<open>TodoRepository.CreateTodo\<close> reads (the priority
  through a pointer), together with the status and sort order that the documented
  payload carries; an absent status is the empty string.
\<close>

record CreateTodoPayload =
  p_Title :: string
  p_Description :: string
  p_Priority :: "Priority option"
  p_Status :: Status
  p_DueDate :: "time option"
  p_ParentTodoID :: "uuid option"
  p_CategoryID :: "uuid option"
  p_Metadata :: "Metadata option"
  p_SortOrder :: int

text \<open>The columns listed by the \<^verbatim>\<open>INSERT INTO todos (...)\<close> statement, each bound to the
  argument of the same name.\<close>

definition CreateTodo_columns :: "string list" where
  "CreateTodo_columns =
     [''user_id'', ''title'', ''description'', ''priority'', ''due_date'',
      ''parent_todo_id'', ''category_id'', ''metadata'']"

text \<open>The \<^verbatim>\<open>pgx.NamedArgs\<close> built by the method, after the priority default.\<close>

definition CreateTodo_args :: "string \<Rightarrow> CreateTodoPayload \<Rightarrow> NamedArgs" where
  "CreateTodo_args userID payload =
     (let priority = (case p_Priority payload of None \<Rightarrow> PriorityMedium | Some p \<Rightarrow> p)
      in [(''user_id'', SqlText userID),
          (''title'', SqlText (p_Title payload)),
          (''description'', SqlText (p_Description payload)),
          (''priority'', SqlText priority),
          (''due_date'', nullable SqlTime (p_DueDate payload)),
          (''parent_todo_id'', nullable SqlUUID (p_ParentTodoID payload)),
          (''category_id'', nullable SqlUUID (p_CategoryID payload)),
          (''metadata'', nullable SqlJSON (p_Metadata payload))])"

definition TodoRepository_CreateTodo ::
  "Env \<Rightarrow> Database \<Rightarrow> string \<Rightarrow> CreateTodoPayload \<Rightarrow> (error + Todo) \<times> Database" where
  "TodoRepository_CreateTodo env db userID payload =
     (let args = CreateTodo_args userID payload;
          db1 = db\<lparr>statements := statements db @ [''INSERT INTO todos'']\<rparr>
      in case env_query_err env of
           Some err \<Rightarrow>
             (Inl (Wrapf (''failed to execute create todo query for user_id='' @ userID
                          @ '' title='' @ p_Title payload) err), db1)
         | None \<Rightarrow>
             (case env_collect_err env of
                Some err \<Rightarrow>
                  (Inl (Wrapf (''failed to collect row from table:todos for user_id='' @ userID
                               @ '' title='' @ p_Title payload) err), db1)
              | None \<Rightarrow>
                  (let todoItem = todos_insert_row env (col_value CreateTodo_columns args)
                   in (Inr todoItem, db1\<lparr>tbl_todos := tbl_todos db1 @ [todoItem]\<rparr>))))"

section \<open>internal/service: TodoService.CreateTodo\<close>

datatype level = InfoLevel | WarnLevel | ErrorLevel

datatype logval = LogStr string | LogInt int

record LogEntry =
  l_level :: level
  l_msg :: string
  l_fields :: "(string \<times> logval) list"

definition log_error :: "error \<Rightarrow> string \<Rightarrow> LogEntry" where
  "log_error err msg = \<lparr>l_level = ErrorLevel, l_msg = msg, l_fields = [(''error'', LogStr (error_string err))]\<rparr>"

definition todo_created_event :: "Todo \<Rightarrow> LogEntry" where
  "todo_created_event todoItem =
     \<lparr>l_level = InfoLevel,
      l_msg = ''Todo created successfully'',
      l_fields =
        [(''event'', LogStr ''todo_created''),
         (''todo_id'', LogStr (ID todoItem)),
         (''title'', LogStr (Title todoItem)),
         (''category_id'', LogStr (case CategoryID todoItem of Some c \<Rightarrow> c | None \<Rightarrow> [])),
         (''priority'', LogStr (Priority todoItem))]\<rparr>"

text \<open>
  The service reaches the store through its two repositories.
  \<^verbatim>\<open>TodoRepository.CheckTodoExists\<close> and \<^verbatim>\<open>CategoryRepository.GetCategoryByID\<close> are not
  part of the sources; they are the arguments \<open>CheckTodoExists\<close> and \<open>GetCategoryByID\<close>,
  lookups by owner and identifier that leave the store as it is. The result is the
  returned pair, the store after the call, and the log entries written.
\<close>

definition TodoService_CreateTodo ::
  "(Database \<Rightarrow> string \<Rightarrow> uuid \<Rightarrow> error + Todo) \<Rightarrow>
   (Database \<Rightarrow> string \<Rightarrow> uuid \<Rightarrow> error + Category) \<Rightarrow>
   Env \<Rightarrow> Database \<Rightarrow> string \<Rightarrow> CreateTodoPayload \<Rightarrow>
   (error + Todo) \<times> Database \<times> LogEntry list" where
  "TodoService_CreateTodo CheckTodoExists GetCategoryByID env db userID payload =
     (let parent_failure =
            (case p_ParentTodoID payload of
               None \<Rightarrow> None
             | Some parentID \<Rightarrow>
                 (case CheckTodoExists db userID parentID of
                    Inl err \<Rightarrow> Some (err, log_error err ''parent todo validation failed'')
                  | Inr parentTodo \<Rightarrow>
                      if \<not> CanHaveChildren parentTodo
                      then Some (HTTPErr (NewBadRequestError
                                   ''Parent todo cannot have children (subtasks can't have subtasks)''
                                   False None [] None),
                                 \<lparr>l_level = WarnLevel, l_msg = ''parent todo cannot have children'',
                                  l_fields = []\<rparr>)
                      else None))
      in case parent_failure of
           Some (err, entry) \<Rightarrow> (Inl err, db, [entry])
         | None \<Rightarrow>
             (let category_failure =
                    (case p_CategoryID payload of
                       None \<Rightarrow> None
                     | Some categoryID \<Rightarrow>
                         (case GetCategoryByID db userID categoryID of
                            Inl err \<Rightarrow> Some (err, log_error err ''category validation failed'')
                          | Inr c \<Rightarrow> None))
              in case category_failure of
                   Some (err, entry) \<Rightarrow> (Inl err, db, [entry])
                 | None \<Rightarrow>
                     (case TodoRepository_CreateTodo env db userID payload of
                        (Inl err, db') \<Rightarrow> (Inl err, db', [log_error err ''failed to create todo''])
                      | (Inr todoItem, db') \<Rightarrow> (Inr todoItem, db', [todo_created_event todoItem]))))"

section \<open>internal/handler: the generic handler and TodoHandler.CreateTodo\<close>

text \<open>
  \<^verbatim>\<open>Handle\<close> binds the request body to the payload (\<open>bound\<close> is \<open>None\<close> when binding
  fails), validates it (\<open>valid\<close> stands for the validator and the struct tags), calls the
  service function and answers with \<^verbatim>\<open>c.JSON(statusCode, response)\<close>. \<open>s0\<close> is the state
  left when the service function is not reached.
\<close>

datatype 'r Response = JSON int 'r | Failed error

definition Handle ::
  "('p \<Rightarrow> (error + 'r) \<times> 's) \<Rightarrow> int \<Rightarrow> 'p option \<Rightarrow> ('p \<Rightarrow> bool) \<Rightarrow> 's \<Rightarrow> 'r Response \<times> 's" where
  "Handle fn statusCode bound valid s0 =
     (case bound of
        None \<Rightarrow> (Failed (HTTPErr (NewBadRequestError ''Invalid request'' False None [] None)), s0)
      | Some payload \<Rightarrow>
          if \<not> valid payload
          then (Failed (HTTPErr (NewBadRequestError ''Validation failed'' False None [] None)), s0)
          else (case fn payload of
                  (Inl err, s) \<Rightarrow> (Failed err, s)
                | (Inr response, s) \<Rightarrow> (JSON statusCode response, s)))"

definition TodoHandler_CreateTodo ::
  "(Database \<Rightarrow> string \<Rightarrow> uuid \<Rightarrow> error + Todo) \<Rightarrow>
   (Database \<Rightarrow> string \<Rightarrow> uuid \<Rightarrow> error + Category) \<Rightarrow>
   Env \<Rightarrow> Database \<Rightarrow> string \<Rightarrow> CreateTodoPayload option \<Rightarrow> (CreateTodoPayload \<Rightarrow> bool) \<Rightarrow>
   Todo Response \<times> Database \<times> LogEntry list" where
  "TodoHandler_CreateTodo CheckTodoExists GetCategoryByID env db userID bound valid =
     Handle (\<lambda>payload. TodoService_CreateTodo CheckTodoExists GetCategoryByID env db userID payload)
       StatusCreated bound valid (db, [])"

text \<open>
  The validation tags documented for the payload:
  \<^verbatim>\<open>
  Title       string   `validate:"required,min=1,max=255"`
  Description string   `validate:"max=5000"`
  Priority    Priority `validate:"required,oneof=low medium high"`
  Status      Status   `validate:"omitempty,oneof=draft active completed archived"`
  \<close>
\<close>

definition validate_CreateTodoPayload :: "CreateTodoPayload \<Rightarrow> bool" where
  "validate_CreateTodoPayload p =
     (1 \<le> length (p_Title p) \<and> length (p_Title p) \<le> 255 \<and>
      length (p_Description p) \<le> 5000 \<and>
      (case p_Priority p of None \<Rightarrow> False
       | Some q \<Rightarrow> q \<in> {PriorityLow, PriorityMedium, PriorityHigh}) \<and>
      (p_Status p = [] \<or> p_Status p \<in> {StatusDraft, StatusActive, StatusCompleted, StatusArchived}))"

section \<open>TodoRepository.GetTodoByID\<close>


record ChildRef =
  ch_id :: uuid
  ch_title :: string
  ch_status :: Status

record CommentRef =
  cr_id :: uuid
  cr_content :: string
  cr_userId :: string

record PopulatedTodo = Todo +
  pt_Category :: "Category option"
  pt_Children :: "ChildRef list"
  pt_Comments :: "CommentRef list"

definition populate :: "Database \<Rightarrow> Todo \<Rightarrow> PopulatedTodo" where
  "populate db t =
     Todo.extend t
       (PopulatedTodo.fields
          (find (\<lambda>c. CategoryID t = Some (ID c)) (tbl_categories db))
          (remdups (map (\<lambda>ch. \<lparr>ch_id = ID ch, ch_title = Title ch, ch_status = Status ch\<rparr>)
                        (filter (\<lambda>ch. ParentTodoID ch = Some (ID t)) (tbl_todos db))))
          (remdups (map (\<lambda>co. \<lparr>cr_id = co_id co, cr_content = co_content co, cr_userId = co_user_id co\<rparr>)
                        (filter (\<lambda>co. co_todo_id co = ID t) (tbl_comments db)))))"

definition QueryRow_todo :: "Env \<Rightarrow> Database \<Rightarrow> uuid \<Rightarrow> string \<Rightarrow> error + Todo" where
  "QueryRow_todo env db todoID userID =
     (case env_query_err env of
        Some err \<Rightarrow> Inl err
      | None \<Rightarrow>
          (case filter (\<lambda>t. ID t = todoID \<and> UserID t = userID) (tbl_todos db) of
             [] \<Rightarrow> Inl ErrNoRows
           | t # rest \<Rightarrow> Inr t))"

definition GetTodoByID_scanned ::
  "Env \<Rightarrow> Database \<Rightarrow> string \<Rightarrow> uuid \<Rightarrow> error + PopulatedTodo" where
  "GetTodoByID_scanned env db userID todoID =
     (case QueryRow_todo env db todoID userID of
        Inl err \<Rightarrow>
          if errors_Is_ErrNoRows err
          then Inl (HTTPErr (NewNotFoundError ''Todo not found'' False None))
          else Inl err
      | Inr t \<Rightarrow> Inr (populate db t))"


section \<open>Updating a task\<close>

text \<open>
  Modelled from the spec: the update operation of the domain-rule component
  (\<^verbatim>\<open>UpdateTodo\<close> is not part of the sources; of the update path only \<^verbatim>\<open>MarkComplete\<close> is).
  A status given by the command replaces the task's status; a transition to
  "completed" sets the completion timestamp, which is what \<^verbatim>\<open>MarkComplete\<close> does; a
  transition away from "completed" clears it. Without a status the task keeps both.
\<close>

definition UpdateTodo_status :: "time \<Rightarrow> Status option \<Rightarrow> Todo \<Rightarrow> Todo" where
  "UpdateTodo_status now new t =
     (case new of
        None \<Rightarrow> t
      | Some s \<Rightarrow>
          if s = StatusCompleted then MarkComplete now t
          else if Status t = StatusCompleted then t\<lparr>Status := s, CompletedAt := None\<rparr>
          else t\<lparr>Status := s\<rparr>)"

section \<open>internal/cron and internal/lib/job: the due-date reminder job\<close>

record CronConfig =
  ArchiveDaysThreshold :: int
  BatchSize :: int
  ReminderHours :: int
  MaxTodosPerUserNotification :: int

record ReminderEmailTask =
  task_UserID :: string
  task_TodoID :: uuid
  task_TodoTitle :: string
  task_DueDate :: time
  task_TaskType :: string

datatype task_type = TaskWelcome | TaskReminderEmail | TaskWeeklyReportEmail

record QueuedTask =
  q_Type :: task_type
  q_Payload :: ReminderEmailTask
  q_Queue :: string
  q_MaxRetry :: int
  q_Timeout :: int
  q_ProcessIn :: int

text \<open>
  The queue client: the items queued so far, and the error, if any, with which the
  queue answers the attempt to enqueue a given reminder (\<^verbatim>\<open>json.Marshal\<close> or
  \<^verbatim>\<open>client.Enqueue\<close> failing). Timeout and delay are in seconds.
\<close>

record JobClient =
  queue :: "QueuedTask list"
  enqueue_err :: "ReminderEmailTask \<Rightarrow> error option"

definition EnqueueReminderEmail :: "JobClient \<Rightarrow> ReminderEmailTask \<Rightarrow> error option \<times> JobClient" where
  "EnqueueReminderEmail client task =
     (case enqueue_err client task of
        Some err \<Rightarrow> (Some err, client)
      | None \<Rightarrow>
          (None, client\<lparr>queue := queue client @
                   [\<lparr>q_Type = TaskReminderEmail, q_Payload = task, q_Queue = ''critical'',
                     q_MaxRetry = 3, q_Timeout = 5 * 60, q_ProcessIn = 10\<rparr>]\<rparr>))"

text \<open>
  Modelled from the spec: \<^verbatim>\<open>TodoRepository.GetTodosDueInHours\<close>, which is not part of the
  sources. Given the window (in hours from now) and the batch-size cap it selects at
  most that many task records whose due timestamp lies in the window, or fails with the
  store's error.
\<close>

definition due_within :: "time \<Rightarrow> int \<Rightarrow> Todo \<Rightarrow> bool" where
  "due_within now hours t =
     (case DueDate t of None \<Rightarrow> False | Some d \<Rightarrow> now \<le> d \<and> d \<le> now + hours * 3600)"

definition GetTodosDueInHours :: "Env \<Rightarrow> Database \<Rightarrow> int \<Rightarrow> int \<Rightarrow> error + Todo list" where
  "GetTodosDueInHours env db hours limit =
     (case env_query_err env of
        Some err \<Rightarrow> Inl err
      | None \<Rightarrow> Inr (take (nat limit) (filter (due_within (env_now env) hours) (tbl_todos db))))"

text \<open>
  The loop of \<^verbatim>\<open>DueDateRemindersJob.Run\<close> over the selected records. \<^verbatim>\<open>*todo.DueDate\<close>
  dereferences the due timestamp: on a record without one the loop panics, which is the
  result \<open>Inl\<close> with the state reached.
\<close>

record LoopState =
  userTodos :: "string \<Rightarrow> string list"
  enqueuedCount :: int
  jobClient :: JobClient
  logs :: "LogEntry list"

definition reminder_for :: "Todo \<Rightarrow> time \<Rightarrow> ReminderEmailTask" where
  "reminder_for todo due =
     \<lparr>task_UserID = UserID todo, task_TodoID = ID todo, task_TodoTitle = Title todo,
      task_DueDate = due, task_TaskType = ''due_date_reminder''\<rparr>"

definition enqueue_failure_entry :: "error \<Rightarrow> Todo \<Rightarrow> LogEntry" where
  "enqueue_failure_entry err todo =
     \<lparr>l_level = ErrorLevel, l_msg = ''Failed to enqueue reminder email'',
      l_fields = [(''error'', LogStr (error_string err)), (''todo_id'', LogStr (ID todo))]\<rparr>"

fun Run_loop :: "CronConfig \<Rightarrow> Todo list \<Rightarrow> LoopState \<Rightarrow> LoopState + LoopState" where
  "Run_loop cfg [] st = Inr st"
| "Run_loop cfg (todo # rest) st =
     (let st1 =
            (if int (length (userTodos st (UserID todo))) < MaxTodosPerUserNotification cfg
             then st\<lparr>userTodos := (userTodos st)(UserID todo := userTodos st (UserID todo) @ [Title todo])\<rparr>
             else st)
      in case DueDate todo of
           None \<Rightarrow> Inl st1
         | Some due \<Rightarrow>
             (case EnqueueReminderEmail (jobClient st1) (reminder_for todo due) of
                (Some err, client) \<Rightarrow>
                  Run_loop cfg rest
                    (st1\<lparr>jobClient := client, logs := logs st1 @ [enqueue_failure_entry err todo]\<rparr>)
              | (None, client) \<Rightarrow>
                  Run_loop cfg rest
                    (st1\<lparr>jobClient := client, enqueuedCount := enqueuedCount st1 + 1\<rparr>)))"

datatype run_result = Returned "error option" | Panicked

definition count_entry :: "string \<Rightarrow> (string \<times> int) list \<Rightarrow> LogEntry" where
  "count_entry msg counts =
     \<lparr>l_level = InfoLevel, l_msg = msg, l_fields = map (\<lambda>(k, n). (k, LogInt n)) counts\<rparr>"

definition DueDateRemindersJob_Run ::
  "(int \<Rightarrow> int \<Rightarrow> error + Todo list) \<Rightarrow> CronConfig \<Rightarrow> JobClient \<Rightarrow>
   run_result \<times> JobClient \<times> LogEntry list" where
  "DueDateRemindersJob_Run GetTodosDueInHours_repo cfg client =
     (case GetTodosDueInHours_repo (ReminderHours cfg) (BatchSize cfg) of
        Inl err \<Rightarrow> (Returned (Some err), client, [])
      | Inr todos \<Rightarrow>
          (let found = count_entry ''Found todos due soon'' [(''todo_count'', int (length todos))];
               st0 = \<lparr>userTodos = (\<lambda>u. []), enqueuedCount = 0, jobClient = client, logs = [found]\<rparr>
           in case Run_loop cfg todos st0 of
                Inl st \<Rightarrow> (Panicked, jobClient st, logs st)
              | Inr st \<Rightarrow>
                  (Returned None, jobClient st,
                   logs st @ [count_entry ''Due date reminder emails enqueued''
                               [(''enqueued_count'', enqueuedCount st),
                                (''total_todos'', int (length todos))]])))"

section \<open>TodoService.UploadTodoAttachment\<close>

text \<open>
  Modelled from the spec: the object store, consumed through put and
  \<^verbatim>\<open>delete(key) \<rightarrow> success/failure\<close> (\<^verbatim>\<open>S3.UploadFile\<close> and \<^verbatim>\<open>S3.DeleteFile\<close> with the
  signatures the service calls are not part of the sources). The store keeps content
  and content type under each key; \<open>upload_err\<close> and \<open>delete_err\<close> are the failures with
  which it answers the next upload and the next delete; \<open>s3_calls\<close> records the calls
  made, in order.
\<close>

datatype s3_call = S3Upload string | S3Delete string

record S3 =
  objects :: "string \<rightharpoonup> string \<times> string"
  upload_err :: "error option"
  delete_err :: "error option"
  s3_calls :: "s3_call list"

definition S3_UploadFile :: "S3 \<Rightarrow> string \<Rightarrow> string \<Rightarrow> string \<Rightarrow> error option \<times> S3" where
  "S3_UploadFile s3 key body contentType =
     (let s3' = s3\<lparr>s3_calls := s3_calls s3 @ [S3Upload key]\<rparr>
      in case upload_err s3 of
           Some err \<Rightarrow> (Some err, s3')
         | None \<Rightarrow> (None, s3'\<lparr>objects := (objects s3)(key \<mapsto> (body, contentType))\<rparr>))"

definition S3_DeleteFile :: "S3 \<Rightarrow> string \<Rightarrow> error option \<times> S3" where
  "S3_DeleteFile s3 key =
     (let s3' = s3\<lparr>s3_calls := s3_calls s3 @ [S3Delete key]\<rparr>
      in case delete_err s3 of
           Some err \<Rightarrow> (Some err, s3')
         | None \<Rightarrow> (None, s3'\<lparr>objects := (objects s3)(key := None)\<rparr>))"

text \<open>
  The uploaded file (\<^verbatim>\<open>*multipart.FileHeader\<close>): name, size, the Content-Type header,
  the bytes read from it, and the error of \<^verbatim>\<open>file.Open()\<close>, if any.
\<close>

record FileHeader =
  f_Filename :: string
  f_Size :: int
  f_ContentType :: string
  f_Content :: string
  f_open_err :: "error option"

text \<open>
  \<^verbatim>\<open>TodoRepository.CheckTodoExists\<close> and \<^verbatim>\<open>TodoRepository.UploadTodoAttachment\<close> are the
  arguments \<open>CheckTodoExists\<close> and \<open>UploadTodoAttachment_repo\<close>; \<open>new_uuid\<close> is the value of
  \<^verbatim>\<open>uuid.New()\<close>. The result of \<^verbatim>\<open>DeleteFile\<close> is dropped, as in the source.
\<close>

definition TodoService_UploadTodoAttachment ::
  "(Database \<Rightarrow> string \<Rightarrow> uuid \<Rightarrow> error + Todo) \<Rightarrow>
   (Database \<Rightarrow> uuid \<Rightarrow> string \<Rightarrow> string \<Rightarrow> string \<Rightarrow> int \<Rightarrow> string \<Rightarrow> (error + TodoAttachment) \<times> Database) \<Rightarrow>
   uuid \<Rightarrow> Database \<Rightarrow> S3 \<Rightarrow> string \<Rightarrow> uuid \<Rightarrow> FileHeader \<Rightarrow>
   (error + TodoAttachment) \<times> Database \<times> S3" where
  "TodoService_UploadTodoAttachment CheckTodoExists UploadTodoAttachment_repo new_uuid db s3 userID todoID file =
     (case CheckTodoExists db userID todoID of
        Inl err \<Rightarrow> (Inl (HTTPErr (NewNotFoundError ''Todo not found'' False None)), db, s3)
      | Inr t \<Rightarrow>
          (case f_open_err file of
             Some err \<Rightarrow>
               (Inl (HTTPErr (NewBadRequestError ''Failed to open file'' False None [] None)), db, s3)
           | None \<Rightarrow>
               (let s3Key = ''attachments/'' @ userID @ ''/'' @ todoID @ ''/'' @ new_uuid
                in case S3_UploadFile s3 s3Key (f_Content file) (f_ContentType file) of
                     (Some err, s3a) \<Rightarrow> (Inl (Wrapf ''failed to upload file to S3'' err), db, s3a)
                   | (None, s3a) \<Rightarrow>
                       (case UploadTodoAttachment_repo db todoID userID s3Key
                               (f_Filename file) (f_Size file) (f_ContentType file) of
                          (Inl err, db') \<Rightarrow> (Inl err, db', snd (S3_DeleteFile s3a s3Key))
                        | (Inr attachment, db') \<Rightarrow> (Inr attachment, db', s3a)))))"

section \<open>Repository lookups and inserts that the sources only call\<close>

text \<open>
  Modelled from the spec: \<^verbatim>\<open>TodoRepository.CheckTodoExists\<close> and
  \<^verbatim>\<open>CategoryRepository.GetCategoryByID\<close>, which are not part of the sources: a lookup
  scoped to the owning principal that fails with NotFound when no row matches both
  identifier and owner.
\<close>

definition CheckTodoExists :: "Database \<Rightarrow> string \<Rightarrow> uuid \<Rightarrow> error + Todo" where
  "CheckTodoExists db userID todoID =
     (case find (\<lambda>t. ID t = todoID \<and> UserID t = userID) (tbl_todos db) of
        None \<Rightarrow> Inl (HTTPErr (NewNotFoundError ''todo not found'' False None))
      | Some t \<Rightarrow> Inr t)"

definition GetCategoryByID :: "Database \<Rightarrow> string \<Rightarrow> uuid \<Rightarrow> error + Category" where
  "GetCategoryByID db userID categoryID =
     (case find (\<lambda>c. ID c = categoryID \<and> cat_UserID c = userID) (tbl_categories db) of
        None \<Rightarrow> Inl (HTTPErr (NewNotFoundError ''category not found'' False None))
      | Some c \<Rightarrow> Inr c)"

text \<open>
  Modelled from the spec: \<^verbatim>\<open>TodoRepository.UploadTodoAttachment\<close>, which is not part of
  the sources: a single-row insert of the attachment's metadata that returns the row
  with its generated identifier and timestamps, or the store's error.
\<close>

definition TodoRepository_UploadTodoAttachment ::
  "Env \<Rightarrow> Database \<Rightarrow> uuid \<Rightarrow> string \<Rightarrow> string \<Rightarrow> string \<Rightarrow> int \<Rightarrow> string \<Rightarrow>
   (error + TodoAttachment) \<times> Database" where
  "TodoRepository_UploadTodoAttachment env db todoID userID s3Key fileName fileSize contentType =
     (let db1 = db\<lparr>statements := statements db @ [''INSERT INTO todo_attachments'']\<rparr>
      in case env_query_err env of
           Some err \<Rightarrow> (Inl err, db1)
         | None \<Rightarrow>
             (let attachment =
                    \<lparr>ID = env_new_uuid env, CreatedAt = env_now env, UpdatedAt = env_now env,
                     att_TodoID = todoID, att_UploadedBy = userID, att_S3Key = s3Key,
                     att_FileName = fileName, att_FileSize = fileSize, att_ContentType = contentType\<rparr>
              in (Inr attachment,
                  db1\<lparr>tbl_todo_attachments := tbl_todo_attachments db1 @ [attachment]\<rparr>)))"

section \<open>Sample data\<close>

definition sample_env :: Env where
  "sample_env = \<lparr>env_now = 1000, env_new_uuid = ''t-3'', env_sort_order_default = 0,
                  env_query_err = None, env_collect_err = None\<rparr>"

definition root_todo :: Todo where
  "root_todo = \<lparr>ID = ''t-1'', CreatedAt = 10, UpdatedAt = 10, UserID = ''alice'', Title = ''Plan trip'',
      Description = [], Priority = PriorityMedium, Status = StatusActive, DueDate = Some 1500,
      CompletedAt = None, ParentTodoID = None, CategoryID = None, Metadata = None, SortOrder = 0\<rparr>"

definition sub_todo :: Todo where
  "sub_todo = \<lparr>ID = ''t-2'', CreatedAt = 20, UpdatedAt = 30, UserID = ''alice'', Title = ''Book flight'',
      Description = [], Priority = PriorityHigh, Status = StatusCompleted, DueDate = Some 500,
      CompletedAt = Some 30, ParentTodoID = Some ''t-1'', CategoryID = None, Metadata = None, SortOrder = 1\<rparr>"

definition sample_db :: Database where
  "sample_db = \<lparr>tbl_todos = [root_todo, sub_todo], tbl_categories = [], tbl_comments = [],
                 tbl_todo_attachments = [], statements = []\<rparr>"

definition buy_milk :: CreateTodoPayload where
  "buy_milk = \<lparr>p_Title = ''Buy milk'', p_Description = [], p_Priority = Some PriorityHigh,
                p_Status = [], p_DueDate = None, p_ParentTodoID = None, p_CategoryID = None,
                p_Metadata = None, p_SortOrder = 0\<rparr>"

definition duplicate_key :: error where
  "duplicate_key = PgErr \<lparr>pg_Severity = ''ERROR'', pg_Code = ''23505'',
      pg_Message = ''duplicate key value violates unique constraint''\<rparr>"

definition flaky_client :: JobClient where
  "flaky_client =
     \<lparr>queue = [],
      enqueue_err = (\<lambda>task. if task_TodoID task = ''t-1'' then Some (OtherErr ''redis: connection refused'')
                            else None)\<rparr>"

definition due_todo :: "uuid \<Rightarrow> time \<Rightarrow> Todo" where
  "due_todo i d = root_todo\<lparr>ID := i, DueDate := Some d\<rparr>"

definition due_db :: Database where
  "due_db = \<lparr>tbl_todos = [due_todo ''t-1'' 1100, due_todo ''t-2'' 1200, due_todo ''t-3'' 1300,
                            due_todo ''t-4'' 999999],
             tbl_categories = [], tbl_comments = [], tbl_todo_attachments = [], statements = []\<rparr>"

definition small_batch :: CronConfig where
  "small_batch = \<lparr>ArchiveDaysThreshold = 30, BatchSize = 2, ReminderHours = 24,
                  MaxTodosPerUserNotification = 10\<rparr>"

definition report_pdf :: FileHeader where
  "report_pdf = \<lparr>f_Filename = ''report.pdf'', f_Size = 4, f_ContentType = ''application/pdf'',
                 f_Content = ''%PDF'', f_open_err = None\<rparr>"

definition empty_s3 :: S3 where
  "empty_s3 = \<lparr>objects = Map.empty, upload_err = None, delete_err = None, s3_calls = []\<rparr>"

definition insert_refused :: Env where
  "insert_refused = sample_env\<lparr>env_query_err := Some (OtherErr ''connection reset by peer'')\<rparr>"

section \<open>Predicates used to state the properties\<close>

text \<open>A store error that is a uniqueness, foreign-key or not-null violation (SQLSTATE
  23505, 23503, 23502), found through the chain of wrapped errors.\<close>

definition constraint_violation :: "error \<Rightarrow> bool" where
  "constraint_violation err =
     (case errors_As_PgError err of
        None \<Rightarrow> False
      | Some pgErr \<Rightarrow> pg_Code pgErr \<in> {''23505'', ''23503'', ''23502''})"

text \<open>
  For the reminder job: whether the queue accepts the reminder of a record, the item
  queued for an accepted record, and the log entry written for a refused one.
\<close>

definition accepted :: "(ReminderEmailTask \<Rightarrow> error option) \<Rightarrow> Todo \<Rightarrow> bool" where
  "accepted answer todo =
     (case DueDate todo of
        None \<Rightarrow> False
      | Some due \<Rightarrow> answer (reminder_for todo due) = None)"

definition queued_for :: "Todo \<Rightarrow> QueuedTask list" where
  "queued_for todo =
     (case DueDate todo of
        None \<Rightarrow> []
      | Some due \<Rightarrow>
          [\<lparr>q_Type = TaskReminderEmail, q_Payload = reminder_for todo due, q_Queue = ''critical'',
            q_MaxRetry = 3, q_Timeout = 300, q_ProcessIn = 10\<rparr>])"

definition failure_entries :: "(ReminderEmailTask \<Rightarrow> error option) \<Rightarrow> Todo \<Rightarrow> LogEntry list" where
  "failure_entries answer todo =
     (case DueDate todo of
        None \<Rightarrow> []
      | Some due \<Rightarrow>
          (case answer (reminder_for todo due) of
             None \<Rightarrow> []
           | Some err \<Rightarrow> [enqueue_failure_entry err todo]))"

section \<open>Properties of the task model\<close>

lemmas enum_defs =
  StatusDraft_def StatusActive_def StatusCompleted_def StatusArchived_def
  PriorityLow_def PriorityMedium_def PriorityHigh_def

lemmas http_status_defs =
  StatusBadRequest_def StatusUnauthorized_def StatusForbidden_def StatusNotFound_def
  StatusInternalServerError_def StatusCreated_def

text \<open>
  C9. A completed task is never overdue, whatever its due timestamp: \<^verbatim>\<open>IsOverdue\<close> holds
  exactly when the task has a due timestamp before the current time and its status is
  not "completed".
\<close>

theorem IsOverdue_not_when_completed:
  "(Status t = StatusCompleted \<longrightarrow> \<not> IsOverdue now t) \<and>
   (IsOverdue now t \<longleftrightarrow> (\<exists>d. DueDate t = Some d \<and> d < now) \<and> Status t \<noteq> StatusCompleted)"
  by (auto simp: IsOverdue_def split: option.splits)

theorem IsOverdue_not_when_completed_witness:
  "Status sub_todo = StatusCompleted \<and> DueDate sub_todo = Some 500 \<and> (500::int) < 1000 \<and>
   \<not> IsOverdue 1000 sub_todo \<and> IsOverdue 1000 (sub_todo\<lparr>Status := StatusActive\<rparr>)"
  using IsOverdue_not_when_completed [of sub_todo 1000]
        IsOverdue_not_when_completed [of "sub_todo\<lparr>Status := StatusActive\<rparr>" 1000]
  by (simp add: sub_todo_def enum_defs)

section \<open>Properties of the data-access create\<close>

text \<open>The row that the store builds from the arguments of \<^verbatim>\<open>TodoRepository.CreateTodo\<close>.\<close>

lemma created_row:
  "todos_insert_row env (col_value CreateTodo_columns (CreateTodo_args userID payload)) =
     \<lparr>ID = env_new_uuid env, CreatedAt = env_now env, UpdatedAt = env_now env,
      UserID = userID, Title = p_Title payload, Description = p_Description payload,
      Priority = (case p_Priority payload of None \<Rightarrow> PriorityMedium | Some p \<Rightarrow> p),
      Status = StatusActive, DueDate = p_DueDate payload, CompletedAt = None,
      ParentTodoID = p_ParentTodoID payload, CategoryID = p_CategoryID payload,
      Metadata = p_Metadata payload, SortOrder = env_sort_order_default env\<rparr>"
  by (simp add: todos_insert_row_def col_value_def CreateTodo_columns_def CreateTodo_args_def
      todos_status_default_def nullable_def Let_def split: option.splits)

lemma CreateTodo_repo_cases:
  "TodoRepository_CreateTodo env db userID payload =
     (case env_query_err env of
        Some err \<Rightarrow>
          (Inl (Wrapf (''failed to execute create todo query for user_id='' @ userID
                       @ '' title='' @ p_Title payload) err),
           db\<lparr>statements := statements db @ [''INSERT INTO todos'']\<rparr>)
      | None \<Rightarrow>
          (case env_collect_err env of
             Some err \<Rightarrow>
               (Inl (Wrapf (''failed to collect row from table:todos for user_id='' @ userID
                            @ '' title='' @ p_Title payload) err),
                db\<lparr>statements := statements db @ [''INSERT INTO todos'']\<rparr>)
           | None \<Rightarrow>
               (Inr (todos_insert_row env (col_value CreateTodo_columns (CreateTodo_args userID payload))),
                db\<lparr>statements := statements db @ [''INSERT INTO todos''],
                   tbl_todos := tbl_todos db @
                     [todos_insert_row env (col_value CreateTodo_columns (CreateTodo_args userID payload))]\<rparr>)))"
  by (simp add: TodoRepository_CreateTodo_def Let_def split: option.splits)

text \<open>
  C3. Whenever the data-access create returns a record, that record is the row appended
  to the table, and its priority is the one bound to the \<^verbatim>\<open>priority\<close> column:
  "medium" when the command carries no priority, the command's priority otherwise.
\<close>

theorem CreateTodo_priority_default:
  assumes "TodoRepository_CreateTodo env db userID payload = (Inr todoItem, db')"
  shows "Priority todoItem = (case p_Priority payload of None \<Rightarrow> PriorityMedium | Some p \<Rightarrow> p) \<and>
         map_of (CreateTodo_args userID payload) ''priority'' = Some (SqlText (Priority todoItem)) \<and>
         tbl_todos db' = tbl_todos db @ [todoItem]"
proof -
  from assms have row: "todoItem = todos_insert_row env (col_value CreateTodo_columns (CreateTodo_args userID payload))"
    and db': "db' = db\<lparr>statements := statements db @ [''INSERT INTO todos''],
                   tbl_todos := tbl_todos db @ [todoItem]\<rparr>"
    by (auto simp: CreateTodo_repo_cases split: option.splits)
  have "Priority todoItem = (case p_Priority payload of None \<Rightarrow> PriorityMedium | Some p \<Rightarrow> p)"
    unfolding row created_row by simp
  moreover have "map_of (CreateTodo_args userID payload) ''priority'' =
                 Some (SqlText (case p_Priority payload of None \<Rightarrow> PriorityMedium | Some p \<Rightarrow> p))"
    by (simp add: CreateTodo_args_def Let_def)
  moreover have "tbl_todos db' = tbl_todos db @ [todoItem]"
    unfolding db' by simp
  ultimately show ?thesis by simp
qed

theorem CreateTodo_priority_default_witness:
  "\<not> isl (fst (TodoRepository_CreateTodo sample_env sample_db ''alice'' (buy_milk\<lparr>p_Priority := None\<rparr>))) \<and>
   Priority (projr (fst (TodoRepository_CreateTodo sample_env sample_db ''alice'' (buy_milk\<lparr>p_Priority := None\<rparr>))))
     = ''medium'' \<and>
   \<not> isl (fst (TodoRepository_CreateTodo sample_env sample_db ''alice'' buy_milk)) \<and>
   Priority (projr (fst (TodoRepository_CreateTodo sample_env sample_db ''alice'' buy_milk))) = ''high''"
proof -
  let ?r = "TodoRepository_CreateTodo sample_env sample_db ''alice'' (buy_milk\<lparr>p_Priority := None\<rparr>)"
  let ?q = "TodoRepository_CreateTodo sample_env sample_db ''alice'' buy_milk"
  have r: "?r = (Inr (projr (fst ?r)), snd ?r)" and q: "?q = (Inr (projr (fst ?q)), snd ?q)"
    by (simp_all add: CreateTodo_repo_cases sample_env_def)
  have nr: "\<not> isl (fst ?r)" and nq: "\<not> isl (fst ?q)"
    by (simp_all add: CreateTodo_repo_cases sample_env_def)
  from CreateTodo_priority_default [OF r] CreateTodo_priority_default [OF q] nr nq
  show ?thesis
    by (simp add: buy_milk_def enum_defs)
qed

text \<open>
  C8. Every call of the data-access create issues the \<^verbatim>\<open>INSERT INTO todos\<close>, and the
  arguments it binds are exactly the eight columns that the statement lists: \<^verbatim>\<open>user_id\<close>,
  \<^verbatim>\<open>title\<close>, \<^verbatim>\<open>description\<close>, \<^verbatim>\<open>priority\<close>, \<^verbatim>\<open>due_date\<close>, \<^verbatim>\<open>parent_todo_id\<close>, \<^verbatim>\<open>category_id\<close> and
  \<^verbatim>\<open>metadata\<close>; \<^verbatim>\<open>status\<close> and \<^verbatim>\<open>sort_order\<close> are given no value. When the store accepts
  the statement, the record returned is the row appended to the table, built from
  those eight arguments, with the status and the sort order of the column defaults. A
  status or a sort order carried by the command therefore has no effect: two commands
  that differ only there bind the same arguments, and the create returns the same
  result and leaves the same store.
\<close>

theorem CreateTodo_ignores_status_and_sort_order:
  "map fst (CreateTodo_args userID payload) =
     [''user_id'', ''title'', ''description'', ''priority'', ''due_date'',
      ''parent_todo_id'', ''category_id'', ''metadata''] \<and>
   CreateTodo_columns = map fst (CreateTodo_args userID payload) \<and>
   CreateTodo_args userID (payload\<lparr>p_Status := s, p_SortOrder := n\<rparr>) = CreateTodo_args userID payload \<and>
   TodoRepository_CreateTodo env db userID (payload\<lparr>p_Status := s, p_SortOrder := n\<rparr>) =
     TodoRepository_CreateTodo env db userID payload \<and>
   statements (snd (TodoRepository_CreateTodo env db userID payload)) =
     statements db @ [''INSERT INTO todos''] \<and>
   col_value CreateTodo_columns (CreateTodo_args userID payload) ''status'' = None \<and>
   col_value CreateTodo_columns (CreateTodo_args userID payload) ''sort_order'' = None \<and>
   (env_query_err env = None \<and> env_collect_err env = None \<longrightarrow>
      TodoRepository_CreateTodo env db userID (payload\<lparr>p_Status := s, p_SortOrder := n\<rparr>) =
        (Inr \<lparr>ID = env_new_uuid env, CreatedAt = env_now env, UpdatedAt = env_now env,
              UserID = userID, Title = p_Title payload, Description = p_Description payload,
              Priority = (case p_Priority payload of None \<Rightarrow> PriorityMedium | Some p \<Rightarrow> p),
              Status = todos_status_default, DueDate = p_DueDate payload, CompletedAt = None,
              ParentTodoID = p_ParentTodoID payload, CategoryID = p_CategoryID payload,
              Metadata = p_Metadata payload, SortOrder = env_sort_order_default env\<rparr>,
         db\<lparr>statements := statements db @ [''INSERT INTO todos''],
            tbl_todos := tbl_todos db @
              [\<lparr>ID = env_new_uuid env, CreatedAt = env_now env, UpdatedAt = env_now env,
                UserID = userID, Title = p_Title payload, Description = p_Description payload,
                Priority = (case p_Priority payload of None \<Rightarrow> PriorityMedium | Some p \<Rightarrow> p),
                Status = todos_status_default, DueDate = p_DueDate payload, CompletedAt = None,
                ParentTodoID = p_ParentTodoID payload, CategoryID = p_CategoryID payload,
                Metadata = p_Metadata payload, SortOrder = env_sort_order_default env\<rparr>]\<rparr>))"
proof -
  have args: "map fst (CreateTodo_args userID payload) =
     [''user_id'', ''title'', ''description'', ''priority'', ''due_date'',
      ''parent_todo_id'', ''category_id'', ''metadata'']"
    and cols: "CreateTodo_columns = map fst (CreateTodo_args userID payload)"
    and same_args: "CreateTodo_args userID (payload\<lparr>p_Status := s, p_SortOrder := n\<rparr>) =
                    CreateTodo_args userID payload"
    by (simp_all add: CreateTodo_args_def CreateTodo_columns_def Let_def)
  have same: "TodoRepository_CreateTodo env db userID (payload\<lparr>p_Status := s, p_SortOrder := n\<rparr>) =
              TodoRepository_CreateTodo env db userID payload"
    by (simp add: CreateTodo_args_def TodoRepository_CreateTodo_def Let_def split: option.splits)
  have issued: "statements (snd (TodoRepository_CreateTodo env db userID payload)) =
                statements db @ [''INSERT INTO todos'']"
    by (simp add: CreateTodo_repo_cases split: option.splits)
  have unbound: "col_value CreateTodo_columns (CreateTodo_args userID payload) ''status'' = None"
    "col_value CreateTodo_columns (CreateTodo_args userID payload) ''sort_order'' = None"
    by (simp_all add: col_value_def CreateTodo_columns_def)
  have row: "env_query_err env = None \<and> env_collect_err env = None \<longrightarrow>
      TodoRepository_CreateTodo env db userID (payload\<lparr>p_Status := s, p_SortOrder := n\<rparr>) =
        (Inr \<lparr>ID = env_new_uuid env, CreatedAt = env_now env, UpdatedAt = env_now env,
              UserID = userID, Title = p_Title payload, Description = p_Description payload,
              Priority = (case p_Priority payload of None \<Rightarrow> PriorityMedium | Some p \<Rightarrow> p),
              Status = todos_status_default, DueDate = p_DueDate payload, CompletedAt = None,
              ParentTodoID = p_ParentTodoID payload, CategoryID = p_CategoryID payload,
              Metadata = p_Metadata payload, SortOrder = env_sort_order_default env\<rparr>,
         db\<lparr>statements := statements db @ [''INSERT INTO todos''],
            tbl_todos := tbl_todos db @
              [\<lparr>ID = env_new_uuid env, CreatedAt = env_now env, UpdatedAt = env_now env,
                UserID = userID, Title = p_Title payload, Description = p_Description payload,
                Priority = (case p_Priority payload of None \<Rightarrow> PriorityMedium | Some p \<Rightarrow> p),
                Status = todos_status_default, DueDate = p_DueDate payload, CompletedAt = None,
                ParentTodoID = p_ParentTodoID payload, CategoryID = p_CategoryID payload,
                Metadata = p_Metadata payload, SortOrder = env_sort_order_default env\<rparr>]\<rparr>)"
    unfolding same
    by (simp add: CreateTodo_repo_cases created_row todos_status_default_def)
  from args cols same_args same issued unbound row show ?thesis
    by (intro conjI)
qed

theorem CreateTodo_ignores_status_and_sort_order_witness:
  "env_query_err sample_env = None \<and> env_collect_err sample_env = None \<and>
   TodoRepository_CreateTodo sample_env sample_db ''alice''
       (buy_milk\<lparr>p_Status := ''completed'', p_SortOrder := 7\<rparr>) =
     (Inr \<lparr>ID = ''t-3'', CreatedAt = 1000, UpdatedAt = 1000, UserID = ''alice'', Title = ''Buy milk'',
           Description = [], Priority = ''high'', Status = ''active'', DueDate = None,
           CompletedAt = None, ParentTodoID = None, CategoryID = None, Metadata = None, SortOrder = 0\<rparr>,
      sample_db\<lparr>statements := [''INSERT INTO todos''],
         tbl_todos := [root_todo, sub_todo,
           \<lparr>ID = ''t-3'', CreatedAt = 1000, UpdatedAt = 1000, UserID = ''alice'', Title = ''Buy milk'',
            Description = [], Priority = ''high'', Status = ''active'', DueDate = None,
            CompletedAt = None, ParentTodoID = None, CategoryID = None, Metadata = None,
            SortOrder = 0\<rparr>]\<rparr>)"
proof -
  have q: "env_query_err sample_env = None \<and> env_collect_err sample_env = None"
    by (simp add: sample_env_def)
  from CreateTodo_ignores_status_and_sort_order
         [where userID = "''alice''" and payload = buy_milk and s = "''completed''" and n = 7
            and env = sample_env and db = sample_db] q
  have "TodoRepository_CreateTodo sample_env sample_db ''alice''
          (buy_milk\<lparr>p_Status := ''completed'', p_SortOrder := 7\<rparr>) =
        (Inr \<lparr>ID = env_new_uuid sample_env, CreatedAt = env_now sample_env, UpdatedAt = env_now sample_env,
              UserID = ''alice'', Title = p_Title buy_milk, Description = p_Description buy_milk,
              Priority = (case p_Priority buy_milk of None \<Rightarrow> PriorityMedium | Some p \<Rightarrow> p),
              Status = todos_status_default, DueDate = p_DueDate buy_milk, CompletedAt = None,
              ParentTodoID = p_ParentTodoID buy_milk, CategoryID = p_CategoryID buy_milk,
              Metadata = p_Metadata buy_milk, SortOrder = env_sort_order_default sample_env\<rparr>,
         sample_db\<lparr>statements := statements sample_db @ [''INSERT INTO todos''],
            tbl_todos := tbl_todos sample_db @
              [\<lparr>ID = env_new_uuid sample_env, CreatedAt = env_now sample_env, UpdatedAt = env_now sample_env,
                UserID = ''alice'', Title = p_Title buy_milk, Description = p_Description buy_milk,
                Priority = (case p_Priority buy_milk of None \<Rightarrow> PriorityMedium | Some p \<Rightarrow> p),
                Status = todos_status_default, DueDate = p_DueDate buy_milk, CompletedAt = None,
                ParentTodoID = p_ParentTodoID buy_milk, CategoryID = p_CategoryID buy_milk,
                Metadata = p_Metadata buy_milk, SortOrder = env_sort_order_default sample_env\<rparr>]\<rparr>)"
    by blast
  then show ?thesis
    using q by (simp add: sample_env_def sample_db_def buy_milk_def todos_status_default_def enum_defs)
qed

section \<open>Properties of the domain-rule create\<close>

text \<open>
  C1. When the parent reference of a create command resolves, for the owning principal, to
  a task that itself has a parent, \<^verbatim>\<open>TodoService.CreateTodo\<close> fails with the BadRequest error
  (status 400) whose message says that the parent "cannot have children", and returns
  the store as it was: no row is added and no \<^verbatim>\<open>INSERT\<close> is issued, whereas every call of
  the data-access create issues one.
\<close>

theorem CreateTodo_rejects_subtask_parent:
  assumes "p_ParentTodoID payload = Some parentID"
    and "chk db userID parentID = Inr parentTodo"
    and "ParentTodoID parentTodo \<noteq> None"
  shows "TodoService_CreateTodo chk getcat env db userID payload =
           (Inl (HTTPErr (NewBadRequestError
                   ''Parent todo cannot have children (subtasks can't have subtasks)''
                   False None [] None)),
            db,
            [\<lparr>l_level = WarnLevel, l_msg = ''parent todo cannot have children'', l_fields = []\<rparr>]) \<and>
         e_Status (NewBadRequestError
                   ''Parent todo cannot have children (subtasks can't have subtasks)''
                   False None [] None) = 400 \<and>
         sublist ''cannot have children''
           (e_Message (NewBadRequestError
                   ''Parent todo cannot have children (subtasks can't have subtasks)''
                   False None [] None)) \<and>
         statements (snd (TodoRepository_CreateTodo env db userID payload)) =
           statements db @ [''INSERT INTO todos'']"
proof -
  have issued: "statements (snd (TodoRepository_CreateTodo env db userID payload)) =
           statements db @ [''INSERT INTO todos'']"
    by (simp add: CreateTodo_repo_cases split: option.splits)
  have "sublist ''cannot have children''
          (''Parent todo '' @ ''cannot have children'' @ '' (subtasks can't have subtasks)'')"
    unfolding sublist_def by blast
  then have msg: "sublist ''cannot have children''
          ''Parent todo cannot have children (subtasks can't have subtasks)''"
    by simp
  have "TodoService_CreateTodo chk getcat env db userID payload =
           (Inl (HTTPErr (NewBadRequestError
                   ''Parent todo cannot have children (subtasks can't have subtasks)''
                   False None [] None)),
            db,
            [\<lparr>l_level = WarnLevel, l_msg = ''parent todo cannot have children'', l_fields = []\<rparr>])"
    using assms by (simp add: TodoService_CreateTodo_def CanHaveChildren_def)
  with issued msg show ?thesis
    by (simp add: NewBadRequestError_def StatusBadRequest_def)
qed

theorem CreateTodo_rejects_subtask_parent_witness:
  "p_ParentTodoID (buy_milk\<lparr>p_ParentTodoID := Some ''t-2''\<rparr>) = Some ''t-2'' \<and>
   CheckTodoExists sample_db ''alice'' ''t-2'' = Inr sub_todo \<and>
   ParentTodoID sub_todo = Some ''t-1'' \<and>
   TodoService_CreateTodo CheckTodoExists GetCategoryByID sample_env sample_db ''alice''
       (buy_milk\<lparr>p_ParentTodoID := Some ''t-2''\<rparr>) =
     (Inl (HTTPErr \<lparr>e_Code = ''BAD_REQUEST'',
                     e_Message = ''Parent todo cannot have children (subtasks can't have subtasks)'',
                     e_Status = 400, e_Override = False, e_Errors = [], e_Action = None\<rparr>),
      sample_db,
      [\<lparr>l_level = WarnLevel, l_msg = ''parent todo cannot have children'', l_fields = []\<rparr>])"
proof -
  have a: "p_ParentTodoID (buy_milk\<lparr>p_ParentTodoID := Some ''t-2''\<rparr>) = Some ''t-2''" by simp
  have b: "CheckTodoExists sample_db ''alice'' ''t-2'' = Inr sub_todo"
    by (simp add: CheckTodoExists_def sample_db_def root_todo_def sub_todo_def)
  have c: "ParentTodoID sub_todo \<noteq> None" by (simp add: sub_todo_def)
  from CreateTodo_rejects_subtask_parent [where chk = CheckTodoExists and getcat = GetCategoryByID
      and env = sample_env, OF a b c]
  show ?thesis using b
    by (simp add: NewBadRequestError_def StatusBadRequest_def sub_todo_def)
qed

section \<open>Properties of the read by identifier\<close>

lemma QueryRow_todo_no_match:
  assumes "\<forall>r \<in> set (tbl_todos db). \<not> (ID r = todoID \<and> UserID r = userID)"
  shows "QueryRow_todo env db todoID userID =
           (case env_query_err env of Some err \<Rightarrow> Inl err | None \<Rightarrow> Inl ErrNoRows)"
proof -
  from assms have "filter (\<lambda>t. ID t = todoID \<and> UserID t = userID) (tbl_todos db) = []"
    by (simp add: filter_empty_conv)
  then show ?thesis
    by (simp add: QueryRow_todo_def split: option.splits)
qed

lemma other_owner_no_match:
  assumes "distinct (map ID (tbl_todos db))"
    and "t \<in> set (tbl_todos db)" and "ID t = todoID" and "UserID t \<noteq> userID"
  shows "\<forall>r \<in> set (tbl_todos db). \<not> (ID r = todoID \<and> UserID r = userID)"
proof (intro ballI notI)
  fix r assume r: "r \<in> set (tbl_todos db)" and m: "ID r = todoID \<and> UserID r = userID"
  from assms(1) have "inj_on ID (set (tbl_todos db))"
    by (simp add: distinct_map)
  with r assms(2,3) m have "r = t"
    by (auto dest: inj_onD)
  with m assms(4) show False by simp
qed

lemma GetTodoByID_scanned_other_owner:
  assumes "env_query_err env = None"
    and "distinct (map ID (tbl_todos db))"
    and "t \<in> set (tbl_todos db)" and "ID t = todoID" and "UserID t \<noteq> userID"
  shows "GetTodoByID_scanned env db userID todoID =
           Inl (HTTPErr (NewNotFoundError ''Todo not found'' False None))"
  using assms(1)
  by (simp add: GetTodoByID_scanned_def
      QueryRow_todo_no_match [OF other_owner_no_match [OF assms(2-5)]])


section \<open>Properties of the create request\<close>

lemma service_create_passes:
  assumes "\<forall>pid. p_ParentTodoID payload = Some pid \<longrightarrow>
             (\<exists>parent. chk db userID pid = Inr parent \<and> ParentTodoID parent = None)"
    and "\<forall>cid. p_CategoryID payload = Some cid \<longrightarrow> (\<exists>c. getcat db userID cid = Inr c)"
  shows "TodoService_CreateTodo chk getcat env db userID payload =
           (case TodoRepository_CreateTodo env db userID payload of
              (Inl err, db') \<Rightarrow> (Inl err, db', [log_error err ''failed to create todo''])
            | (Inr todoItem, db') \<Rightarrow> (Inr todoItem, db', [todo_created_event todoItem]))"
proof -
  have p: "(case p_ParentTodoID payload of
               None \<Rightarrow> None
             | Some parentID \<Rightarrow>
                 (case chk db userID parentID of
                    Inl err \<Rightarrow> Some (err, log_error err ''parent todo validation failed'')
                  | Inr parentTodo \<Rightarrow>
                      if \<not> CanHaveChildren parentTodo
                      then Some (HTTPErr (NewBadRequestError
                                   ''Parent todo cannot have children (subtasks can't have subtasks)''
                                   False None [] None),
                                 \<lparr>l_level = WarnLevel, l_msg = ''parent todo cannot have children'',
                                  l_fields = []\<rparr>)
                      else None)) = None"
    using assms(1) by (auto simp: CanHaveChildren_def split: option.splits)
  have c: "(case p_CategoryID payload of
                       None \<Rightarrow> None
                     | Some categoryID \<Rightarrow>
                         (case getcat db userID categoryID of
                            Inl err \<Rightarrow> Some (err, log_error err ''category validation failed'')
                          | Inr c \<Rightarrow> None)) = None"
    using assms(2) by (auto split: option.splits)
  show ?thesis
    unfolding TodoService_CreateTodo_def Let_def p c by simp
qed

lemma handler_created:
  assumes "valid payload"
    and "\<forall>pid. p_ParentTodoID payload = Some pid \<longrightarrow>
             (\<exists>parent. chk db userID pid = Inr parent \<and> ParentTodoID parent = None)"
    and "\<forall>cid. p_CategoryID payload = Some cid \<longrightarrow> (\<exists>c. getcat db userID cid = Inr c)"
    and "env_query_err env = None" and "env_collect_err env = None"
  shows "TodoHandler_CreateTodo chk getcat env db userID (Some payload) valid =
           (JSON 201 (todos_insert_row env (col_value CreateTodo_columns (CreateTodo_args userID payload))),
            db\<lparr>statements := statements db @ [''INSERT INTO todos''],
               tbl_todos := tbl_todos db @
                 [todos_insert_row env (col_value CreateTodo_columns (CreateTodo_args userID payload))]\<rparr>,
            [todo_created_event
               (todos_insert_row env (col_value CreateTodo_columns (CreateTodo_args userID payload)))])"
proof -
  let ?row = "todos_insert_row env (col_value CreateTodo_columns (CreateTodo_args userID payload))"
  have repo: "TodoRepository_CreateTodo env db userID payload =
                (Inr ?row, db\<lparr>statements := statements db @ [''INSERT INTO todos''],
                                tbl_todos := tbl_todos db @ [?row]\<rparr>)"
    using assms(4,5) by (simp add: CreateTodo_repo_cases)
  have svc: "TodoService_CreateTodo chk getcat env db userID payload =
               (Inr ?row, db\<lparr>statements := statements db @ [''INSERT INTO todos''],
                               tbl_todos := tbl_todos db @ [?row]\<rparr>, [todo_created_event ?row])"
    by (simp add: service_create_passes [where chk = chk and getcat = getcat and db = db
          and userID = userID and payload = payload, OF assms(2,3)] repo)
  show ?thesis
    using assms(1) by (simp add: TodoHandler_CreateTodo_def Handle_def svc StatusCreated_def)
qed

text \<open>
  C4. The create request of the scenario: a command that carries priority "high", no due
  timestamp and no parent or category reference (as \<^verbatim>\<open>{title: "Buy milk", priority: "high"}\<close>
  does), that binds and validates and whose insert the store accepts, is answered with
  status 201 and the inserted record, and that record has status "active", priority
  "high" and no due timestamp. The status is the default of the \<^verbatim>\<open>status\<close> column: the
  create does not bind that column, so the record has it whether or not the command
  carries a status.
\<close>

theorem CreateTodo_created_response:
  assumes "bound = Some payload" and "valid payload"
    and "p_Priority payload = Some PriorityHigh" and "p_DueDate payload = None"
    and "p_ParentTodoID payload = None" and "p_CategoryID payload = None"
    and "env_query_err env = None" and "env_collect_err env = None"
  shows "\<exists>todoItem.
           fst (TodoHandler_CreateTodo chk getcat env db userID bound valid) = JSON 201 todoItem \<and>
           Status todoItem = ''active'' \<and>
           Priority todoItem = ''high'' \<and>
           DueDate todoItem = None \<and>
           Title todoItem = p_Title payload \<and>
           UserID todoItem = userID \<and>
           tbl_todos (fst (snd (TodoHandler_CreateTodo chk getcat env db userID bound valid))) =
             tbl_todos db @ [todoItem]"
proof -
  let ?row = "todos_insert_row env (col_value CreateTodo_columns (CreateTodo_args userID payload))"
  have p: "\<forall>pid. p_ParentTodoID payload = Some pid \<longrightarrow>
             (\<exists>parent. chk db userID pid = Inr parent \<and> ParentTodoID parent = None)"
    and c: "\<forall>cid. p_CategoryID payload = Some cid \<longrightarrow> (\<exists>c. getcat db userID cid = Inr c)"
    using assms(5,6) by simp_all
  note h = handler_created [where chk = chk and getcat = getcat and db = db and userID = userID
      and payload = payload and valid = valid and env = env, OF assms(2) p c assms(7,8)]
  have "Status ?row = ''active''" and "Priority ?row = ''high''" and "DueDate ?row = None"
    and "Title ?row = p_Title payload" and "UserID ?row = userID"
    using assms(3,4) by (simp_all add: created_row enum_defs)
  with h assms(1) show ?thesis by simp
qed

theorem CreateTodo_created_response_witness:
  "validate_CreateTodoPayload buy_milk \<and>
   p_Title buy_milk = ''Buy milk'' \<and> p_Priority buy_milk = Some ''high'' \<and> p_Status buy_milk = [] \<and>
   p_DueDate buy_milk = None \<and> p_ParentTodoID buy_milk = None \<and> p_CategoryID buy_milk = None \<and>
   fst (TodoHandler_CreateTodo CheckTodoExists GetCategoryByID sample_env sample_db ''alice''
       (Some buy_milk) validate_CreateTodoPayload) =
     JSON 201
        \<lparr>ID = ''t-3'', CreatedAt = 1000, UpdatedAt = 1000, UserID = ''alice'', Title = ''Buy milk'',
         Description = [], Priority = ''high'', Status = ''active'', DueDate = None,
         CompletedAt = None, ParentTodoID = None, CategoryID = None, Metadata = None, SortOrder = 0\<rparr>"
proof -
  have v: "validate_CreateTodoPayload buy_milk"
    by (simp add: validate_CreateTodoPayload_def buy_milk_def enum_defs)
  have f: "p_Priority buy_milk = Some PriorityHigh" "p_DueDate buy_milk = None"
    "p_ParentTodoID buy_milk = None" "p_CategoryID buy_milk = None"
    by (simp_all add: buy_milk_def)
  have q: "env_query_err sample_env = None" and r: "env_collect_err sample_env = None"
    by (simp_all add: sample_env_def)
  from CreateTodo_created_response [where chk = CheckTodoExists and getcat = GetCategoryByID
      and db = sample_db and userID = "''alice''" and payload = buy_milk and env = sample_env
      and valid = validate_CreateTodoPayload and bound = "Some buy_milk", OF refl v f q r]
  obtain todoItem where
    t: "fst (TodoHandler_CreateTodo CheckTodoExists GetCategoryByID sample_env sample_db ''alice''
              (Some buy_milk) validate_CreateTodoPayload) = JSON 201 todoItem"
    by blast
  have p: "\<forall>pid. p_ParentTodoID buy_milk = Some pid \<longrightarrow>
             (\<exists>parent. CheckTodoExists sample_db ''alice'' pid = Inr parent \<and> ParentTodoID parent = None)"
    and c: "\<forall>cid. p_CategoryID buy_milk = Some cid \<longrightarrow> (\<exists>c. GetCategoryByID sample_db ''alice'' cid = Inr c)"
    by (simp_all add: buy_milk_def)
  note h = handler_created [where chk = CheckTodoExists and getcat = GetCategoryByID
      and db = sample_db and userID = "''alice''" and payload = buy_milk
      and valid = validate_CreateTodoPayload and env = sample_env, OF v p c q r]
  have "fst (TodoHandler_CreateTodo CheckTodoExists GetCategoryByID sample_env sample_db ''alice''
              (Some buy_milk) validate_CreateTodoPayload) =
        JSON 201 \<lparr>ID = ''t-3'', CreatedAt = 1000, UpdatedAt = 1000, UserID = ''alice'', Title = ''Buy milk'',
         Description = [], Priority = ''high'', Status = ''active'', DueDate = None,
         CompletedAt = None, ParentTodoID = None, CategoryID = None, Metadata = None, SortOrder = 0\<rparr>"
    unfolding h created_row
    by (simp add: sample_env_def buy_milk_def enum_defs)
  with v t show ?thesis
    by (simp add: buy_milk_def enum_defs)
qed

section \<open>Properties of the error translation\<close>

lemma HandleSQLError_Wrapf: "HandleSQLError (Wrapf m e) = HandleSQLError e"
  by (simp add: HandleSQLError_def Let_def split: option.splits)

lemma CreateTodo_repo_error:
  assumes "fst (TodoRepository_CreateTodo env db userID payload) = Inl e"
  shows "\<exists>m s. e = Wrapf m s \<and> (env_query_err env = Some s \<or> env_collect_err env = Some s)"
  using assms by (auto simp: CreateTodo_repo_cases split: option.splits)

text \<open>
  C5, as amended. \<^verbatim>\<open>HandleSQLError\<close> maps every error to one of five fixed HTTP errors:
  BadRequest (400) for a uniqueness, foreign-key or not-null violation, NotFound (404)
  when no row matched, Internal (500) otherwise; nothing of the store's error is kept
  in the result. The data-access create does not apply it: an error it returns is the
  store's error wrapped in a context message, which \<^verbatim>\<open>HandleSQLError\<close> translates as it
  translates the store's error itself.
\<close>

theorem HandleSQLError_closed_set:
  "HandleSQLError err \<in>
     {HTTPErr (NewBadRequestError ''Record already exists'' False None [] None),
      HTTPErr (NewBadRequestError ''Referenced record not found'' False None [] None),
      HTTPErr (NewBadRequestError ''Required field missing'' False None [] None),
      HTTPErr (NewNotFoundError ''Record not found'' False None),
      HTTPErr NewInternalServerError} \<and>
   (\<exists>h. HandleSQLError err = HTTPErr h \<and>
        e_Status h = (if constraint_violation err then StatusBadRequest
                      else if errors_Is_ErrNoRows err then StatusNotFound
                      else StatusInternalServerError)) \<and>
   (fst (TodoRepository_CreateTodo env db userID payload) = Inl e \<longrightarrow>
      (\<exists>m s. e = Wrapf m s \<and> (env_query_err env = Some s \<or> env_collect_err env = Some s) \<and>
             HandleSQLError e = HandleSQLError s))"
proof (intro conjI impI)
  show "HandleSQLError err \<in>
     {HTTPErr (NewBadRequestError ''Record already exists'' False None [] None),
      HTTPErr (NewBadRequestError ''Referenced record not found'' False None [] None),
      HTTPErr (NewBadRequestError ''Required field missing'' False None [] None),
      HTTPErr (NewNotFoundError ''Record not found'' False None),
      HTTPErr NewInternalServerError}"
    by (simp add: HandleSQLError_def Let_def split: option.splits)
next
  show "\<exists>h. HandleSQLError err = HTTPErr h \<and>
        e_Status h = (if constraint_violation err then StatusBadRequest
                      else if errors_Is_ErrNoRows err then StatusNotFound
                      else StatusInternalServerError)"
    by (simp add: HandleSQLError_def Let_def constraint_violation_def
        NewBadRequestError_def NewNotFoundError_def NewInternalServerError_def
        split: option.splits)
next
  assume "fst (TodoRepository_CreateTodo env db userID payload) = Inl e"
  from CreateTodo_repo_error [OF this]
  show "\<exists>m s. e = Wrapf m s \<and> (env_query_err env = Some s \<or> env_collect_err env = Some s) \<and>
             HandleSQLError e = HandleSQLError s"
    by (auto simp: HandleSQLError_Wrapf)
qed

theorem HandleSQLError_closed_set_witness:
  "fst (TodoRepository_CreateTodo (sample_env\<lparr>env_collect_err := Some ErrNoRows\<rparr>) sample_db ''alice'' buy_milk)
     = Inl (Wrapf ''failed to collect row from table:todos for user_id=alice title=Buy milk'' ErrNoRows) \<and>
   HandleSQLError (Wrapf ''failed to collect row from table:todos for user_id=alice title=Buy milk'' ErrNoRows)
     = HandleSQLError ErrNoRows \<and>
   HandleSQLError ErrNoRows =
     HTTPErr \<lparr>e_Code = ''NOT_FOUND'', e_Message = ''Record not found'', e_Status = 404,
              e_Override = False, e_Errors = [], e_Action = None\<rparr>"
proof -
  have a: "fst (TodoRepository_CreateTodo (sample_env\<lparr>env_collect_err := Some ErrNoRows\<rparr>) sample_db ''alice'' buy_milk)
     = Inl (Wrapf ''failed to collect row from table:todos for user_id=alice title=Buy milk'' ErrNoRows)"
    by (simp add: CreateTodo_repo_cases sample_env_def buy_milk_def)
  from HandleSQLError_closed_set [where err = ErrNoRows
      and env = "sample_env\<lparr>env_collect_err := Some ErrNoRows\<rparr>" and db = sample_db
      and userID = "''alice''" and payload = buy_milk
      and e = "Wrapf ''failed to collect row from table:todos for user_id=alice title=Buy milk'' ErrNoRows"]
    a
  have "HandleSQLError (Wrapf ''failed to collect row from table:todos for user_id=alice title=Buy milk'' ErrNoRows)
         = HandleSQLError ErrNoRows"
    by (auto simp: sample_env_def)
  moreover have "HandleSQLError ErrNoRows =
     HTTPErr \<lparr>e_Code = ''NOT_FOUND'', e_Message = ''Record not found'', e_Status = 404,
              e_Override = False, e_Errors = [], e_Action = None\<rparr>"
    by (simp add: HandleSQLError_def Let_def NewNotFoundError_def http_status_defs)
  ultimately show ?thesis using a by simp
qed

text \<open>
  C5, as stated, fails: when the store rejects the insert with a uniqueness violation,
  the data-access create returns, and the domain-rule create passes on, the driver's
  error wrapped in a context message; the driver's error value is in it, its text ends
  with the text of the driver's error, and it is not the translated error.
\<close>

theorem CreateTodo_returns_store_error_counterexample:
  "fst (TodoRepository_CreateTodo (sample_env\<lparr>env_collect_err := Some duplicate_key\<rparr>)
          sample_db ''alice'' buy_milk) =
     Inl (Wrapf ''failed to collect row from table:todos for user_id=alice title=Buy milk'' duplicate_key) \<and>
   fst (TodoService_CreateTodo CheckTodoExists GetCategoryByID
          (sample_env\<lparr>env_collect_err := Some duplicate_key\<rparr>) sample_db ''alice'' buy_milk) =
     Inl (Wrapf ''failed to collect row from table:todos for user_id=alice title=Buy milk'' duplicate_key) \<and>
   errors_As_PgError
     (Wrapf ''failed to collect row from table:todos for user_id=alice title=Buy milk'' duplicate_key) =
     Some \<lparr>pg_Severity = ''ERROR'', pg_Code = ''23505'',
            pg_Message = ''duplicate key value violates unique constraint''\<rparr> \<and>
   error_string
     (Wrapf ''failed to collect row from table:todos for user_id=alice title=Buy milk'' duplicate_key) =
     ''failed to collect row from table:todos for user_id=alice title=Buy milk: ERROR: duplicate key value violates unique constraint (SQLSTATE 23505)'' \<and>
   HandleSQLError
     (Wrapf ''failed to collect row from table:todos for user_id=alice title=Buy milk'' duplicate_key) =
     HTTPErr (NewBadRequestError ''Record already exists'' False None [] None) \<and>
   Wrapf ''failed to collect row from table:todos for user_id=alice title=Buy milk'' duplicate_key \<noteq>
     HandleSQLError
       (Wrapf ''failed to collect row from table:todos for user_id=alice title=Buy milk'' duplicate_key)"
proof -
  have r: "TodoRepository_CreateTodo (sample_env\<lparr>env_collect_err := Some duplicate_key\<rparr>)
          sample_db ''alice'' buy_milk =
     (Inl (Wrapf ''failed to collect row from table:todos for user_id=alice title=Buy milk'' duplicate_key),
      sample_db\<lparr>statements := statements sample_db @ [''INSERT INTO todos'']\<rparr>)"
    by (simp add: CreateTodo_repo_cases sample_env_def buy_milk_def)
  have s: "fst (TodoService_CreateTodo CheckTodoExists GetCategoryByID
          (sample_env\<lparr>env_collect_err := Some duplicate_key\<rparr>) sample_db ''alice'' buy_milk) =
     Inl (Wrapf ''failed to collect row from table:todos for user_id=alice title=Buy milk'' duplicate_key)"
    unfolding TodoService_CreateTodo_def Let_def r
    by (simp add: buy_milk_def)
  show ?thesis
    using r s by (simp add: duplicate_key_def HandleSQLError_def Let_def)
qed

section \<open>Properties of the update\<close>

text \<open>
  C6. An update whose status is "completed" sets the completion timestamp (to the time
  of the update, as \<^verbatim>\<open>MarkComplete\<close> does) and the status; an update that moves a completed
  task to any other status clears the completion timestamp.
\<close>

theorem UpdateTodo_status_completion:
  "CompletedAt (UpdateTodo_status now (Some StatusCompleted) t) = Some now \<and>
   CompletedAt (UpdateTodo_status now (Some StatusCompleted) t) \<noteq> None \<and>
   Status (UpdateTodo_status now (Some StatusCompleted) t) = StatusCompleted \<and>
   UpdateTodo_status now (Some StatusCompleted) t = MarkComplete now t \<and>
   (Status t = StatusCompleted \<and> s \<noteq> StatusCompleted \<longrightarrow>
      CompletedAt (UpdateTodo_status now (Some s) t) = None \<and>
      Status (UpdateTodo_status now (Some s) t) = s)"
  by (simp add: UpdateTodo_status_def MarkComplete_def)

theorem UpdateTodo_status_completion_witness:
  "Status sub_todo = StatusCompleted \<and> StatusActive \<noteq> StatusCompleted \<and>
   CompletedAt sub_todo = Some 30 \<and>
   CompletedAt (UpdateTodo_status 2000 (Some StatusActive) sub_todo) = None \<and>
   Status (UpdateTodo_status 2000 (Some StatusActive) sub_todo) = ''active'' \<and>
   CompletedAt root_todo = None \<and>
   CompletedAt (UpdateTodo_status 2000 (Some StatusCompleted) root_todo) = Some 2000"
proof -
  have a: "Status sub_todo = StatusCompleted \<and> StatusActive \<noteq> StatusCompleted"
    by (simp add: sub_todo_def enum_defs)
  from UpdateTodo_status_completion [of 2000 sub_todo StatusActive] a
  have b: "CompletedAt (UpdateTodo_status 2000 (Some StatusActive) sub_todo) = None \<and>
           Status (UpdateTodo_status 2000 (Some StatusActive) sub_todo) = StatusActive"
    by blast
  from UpdateTodo_status_completion [of 2000 root_todo StatusActive]
  have c: "CompletedAt (UpdateTodo_status 2000 (Some StatusCompleted) root_todo) = Some 2000"
    by blast
  have d: "CompletedAt sub_todo = Some 30 \<and> CompletedAt root_todo = None"
    by (simp add: sub_todo_def root_todo_def)
  from a b c d show ?thesis
    by (simp add: StatusActive_def)
qed

section \<open>Properties of the due-date reminder job\<close>

lemma Run_loop_result:
  assumes "\<forall>t \<in> set todos. DueDate t \<noteq> None"
  shows "\<exists>st'. Run_loop cfg todos st = Inr st' \<and>
           enqueue_err (jobClient st') = enqueue_err (jobClient st) \<and>
           queue (jobClient st') =
             queue (jobClient st) @
             concat (map queued_for (filter (accepted (enqueue_err (jobClient st))) todos)) \<and>
           enqueuedCount st' =
             enqueuedCount st + int (length (filter (accepted (enqueue_err (jobClient st))) todos)) \<and>
           logs st' = logs st @ concat (map (failure_entries (enqueue_err (jobClient st))) todos)"
  using assms
proof (induction todos arbitrary: st)
  case Nil
  then show ?case by simp
next
  case (Cons todo rest)
  then obtain due where due: "DueDate todo = Some due" by auto
  define st1 where "st1 =
      (if int (length (userTodos st (UserID todo))) < MaxTodosPerUserNotification cfg
       then st\<lparr>userTodos := (userTodos st)(UserID todo := userTodos st (UserID todo) @ [Title todo])\<rparr>
       else st)"
  have st1: "jobClient st1 = jobClient st" "logs st1 = logs st" "enqueuedCount st1 = enqueuedCount st"
    by (simp_all add: st1_def)
  from Cons.prems have rest: "\<forall>t \<in> set rest. DueDate t \<noteq> None" by simp
  show ?case
  proof (cases "enqueue_err (jobClient st) (reminder_for todo due)")
    case None
    define st2 where "st2 = st1\<lparr>jobClient := (jobClient st)\<lparr>queue := queue (jobClient st) @ queued_for todo\<rparr>,
                                 enqueuedCount := enqueuedCount st1 + 1\<rparr>"
    have step: "Run_loop cfg (todo # rest) st = Run_loop cfg rest st2"
      using due None
      by (simp add: st1_def [symmetric] st2_def st1 EnqueueReminderEmail_def queued_for_def Let_def)
    from Cons.IH [OF rest, of st2] obtain st' where
      "Run_loop cfg rest st2 = Inr st'"
      "enqueue_err (jobClient st') = enqueue_err (jobClient st2)"
      "queue (jobClient st') = queue (jobClient st2) @
         concat (map queued_for (filter (accepted (enqueue_err (jobClient st2))) rest))"
      "enqueuedCount st' = enqueuedCount st2 +
         int (length (filter (accepted (enqueue_err (jobClient st2))) rest))"
      "logs st' = logs st2 @ concat (map (failure_entries (enqueue_err (jobClient st2))) rest)"
      by blast
    moreover have "accepted (enqueue_err (jobClient st)) todo"
      and "failure_entries (enqueue_err (jobClient st)) todo = []"
      using due None by (simp_all add: accepted_def failure_entries_def)
    ultimately show ?thesis
      using step by (simp add: st2_def st1)
  next
    case (Some err)
    define st2 where "st2 = st1\<lparr>jobClient := jobClient st,
                                 logs := logs st1 @ [enqueue_failure_entry err todo]\<rparr>"
    have step: "Run_loop cfg (todo # rest) st = Run_loop cfg rest st2"
      using due Some
      by (simp add: st1_def [symmetric] st2_def st1 EnqueueReminderEmail_def Let_def)
    from Cons.IH [OF rest, of st2] obtain st' where
      "Run_loop cfg rest st2 = Inr st'"
      "enqueue_err (jobClient st') = enqueue_err (jobClient st2)"
      "queue (jobClient st') = queue (jobClient st2) @
         concat (map queued_for (filter (accepted (enqueue_err (jobClient st2))) rest))"
      "enqueuedCount st' = enqueuedCount st2 +
         int (length (filter (accepted (enqueue_err (jobClient st2))) rest))"
      "logs st' = logs st2 @ concat (map (failure_entries (enqueue_err (jobClient st2))) rest)"
      by blast
    moreover have "\<not> accepted (enqueue_err (jobClient st)) todo"
      and "failure_entries (enqueue_err (jobClient st)) todo = [enqueue_failure_entry err todo]"
      using due Some by (simp_all add: accepted_def failure_entries_def)
    ultimately show ?thesis
      using step by (simp add: st2_def st1)
  qed
qed


lemma length_queued_for:
  assumes "\<forall>t \<in> set todos. DueDate t \<noteq> None"
  shows "length (concat (map queued_for todos)) = length todos"
  using assms by (induction todos) (auto simp: queued_for_def)

lemma length_failure_entries:
  assumes "\<forall>t \<in> set todos. DueDate t \<noteq> None"
  shows "length (concat (map (failure_entries answer) todos)) =
         length (filter (\<lambda>t. \<not> accepted answer t) todos)"
  using assms by (induction todos) (auto simp: failure_entries_def accepted_def split: option.splits)

lemma GetTodosDueInHours_selected:
  assumes "env_query_err env = None"
  shows "GetTodosDueInHours env db hours limit =
           Inr (take (nat limit) (filter (due_within (env_now env) hours) (tbl_todos db)))"
  using assms by (simp add: GetTodosDueInHours_def)

lemma Run_on_selected:
  assumes "repo (ReminderHours cfg) (BatchSize cfg) = Inr todos"
    and "\<forall>t \<in> set todos. DueDate t \<noteq> None"
  shows "DueDateRemindersJob_Run repo cfg client =
           (Returned None,
            client\<lparr>queue := queue client @
                      concat (map queued_for (filter (accepted (enqueue_err client)) todos))\<rparr>,
            [count_entry ''Found todos due soon'' [(''todo_count'', int (length todos))]] @
            concat (map (failure_entries (enqueue_err client)) todos) @
            [count_entry ''Due date reminder emails enqueued''
               [(''enqueued_count'', int (length (filter (accepted (enqueue_err client)) todos))),
                (''total_todos'', int (length todos))]])"
proof -
  define st0 where "st0 =
      \<lparr>userTodos = (\<lambda>u. []), enqueuedCount = 0, jobClient = client,
       logs = [count_entry ''Found todos due soon'' [(''todo_count'', int (length todos))]]\<rparr>"
  from Run_loop_result [OF assms(2), of cfg st0] obtain st' where
    run: "Run_loop cfg todos st0 = Inr st'"
    and e: "enqueue_err (jobClient st') = enqueue_err client"
    and q: "queue (jobClient st') =
              queue client @ concat (map queued_for (filter (accepted (enqueue_err client)) todos))"
    and n: "enqueuedCount st' = int (length (filter (accepted (enqueue_err client)) todos))"
    and l: "logs st' =
              [count_entry ''Found todos due soon'' [(''todo_count'', int (length todos))]] @
              concat (map (failure_entries (enqueue_err client)) todos)"
    by (auto simp: st0_def)
  have c: "jobClient st' =
             client\<lparr>queue := queue client @
                      concat (map queued_for (filter (accepted (enqueue_err client)) todos))\<rparr>"
    by (rule JobClient.equality) (simp_all add: e q)
  show ?thesis
    using assms(1) run
    by (simp add: DueDateRemindersJob_Run_def st0_def [symmetric] c n l)
qed

lemma Run_returns_lookup_error:
  assumes "repo (ReminderHours cfg) (BatchSize cfg) = Inl err"
  shows "DueDateRemindersJob_Run repo cfg client = (Returned (Some err), client, [])"
  using assms by (simp add: DueDateRemindersJob_Run_def)

text \<open>
  C7. With a non-negative batch-size cap and the store answering the query, a run of the
  job selects at most cap-many records, all of them due in the window, and returns
  without error after one enqueue attempt per selected record: each record whose
  reminder the queue accepts adds exactly one item to the queue, each record whose
  reminder it refuses adds exactly one error entry to the log and the loop goes on, and
  the count reported at the end is the number of accepted records.
\<close>

theorem DueDateRemindersJob_Run_partial_success:
  assumes "0 \<le> BatchSize cfg" and "env_query_err env = None"
  shows "\<exists>todos.
           GetTodosDueInHours env db (ReminderHours cfg) (BatchSize cfg) = Inr todos \<and>
           int (length todos) \<le> BatchSize cfg \<and>
           set todos \<subseteq> {t. t \<in> set (tbl_todos db) \<and> due_within (env_now env) (ReminderHours cfg) t} \<and>
           DueDateRemindersJob_Run (GetTodosDueInHours env db) cfg client =
             (Returned None,
              client\<lparr>queue := queue client @
                        concat (map queued_for (filter (accepted (enqueue_err client)) todos))\<rparr>,
              [count_entry ''Found todos due soon'' [(''todo_count'', int (length todos))]] @
              concat (map (failure_entries (enqueue_err client)) todos) @
              [count_entry ''Due date reminder emails enqueued''
                 [(''enqueued_count'', int (length (filter (accepted (enqueue_err client)) todos))),
                  (''total_todos'', int (length todos))]]) \<and>
           length (concat (map queued_for (filter (accepted (enqueue_err client)) todos))) =
             length (filter (accepted (enqueue_err client)) todos) \<and>
           length (concat (map (failure_entries (enqueue_err client)) todos)) =
             length (filter (\<lambda>t. \<not> accepted (enqueue_err client) t) todos) \<and>
           length (filter (accepted (enqueue_err client)) todos) +
             length (filter (\<lambda>t. \<not> accepted (enqueue_err client) t) todos) = length todos"
proof -
  define todos where
    "todos = take (nat (BatchSize cfg))
               (filter (due_within (env_now env) (ReminderHours cfg)) (tbl_todos db))"
  have sel: "GetTodosDueInHours env db (ReminderHours cfg) (BatchSize cfg) = Inr todos"
    unfolding todos_def using assms(2) by (rule GetTodosDueInHours_selected)
  have cap: "int (length todos) \<le> BatchSize cfg"
    using assms(1) by (simp add: todos_def)
  have sub: "set todos \<subseteq> {t. t \<in> set (tbl_todos db) \<and> due_within (env_now env) (ReminderHours cfg) t}"
    unfolding todos_def by (auto dest: in_set_takeD)
  then have due: "\<forall>t \<in> set todos. DueDate t \<noteq> None"
    by (auto simp: due_within_def split: option.splits)
  then have due': "\<forall>t \<in> set (filter (accepted (enqueue_err client)) todos). DueDate t \<noteq> None"
    by simp
  note run = Run_on_selected [where repo = "GetTodosDueInHours env db", OF sel due]
  show ?thesis
    using sel cap sub run length_queued_for [OF due'] length_failure_entries [OF due]
      sum_length_filter_compl [of "accepted (enqueue_err client)" todos]
    by blast
qed

theorem DueDateRemindersJob_Run_partial_success_witness:
  "0 \<le> BatchSize small_batch \<and> env_query_err sample_env = None \<and>
   GetTodosDueInHours sample_env due_db (ReminderHours small_batch) (BatchSize small_batch) =
     Inr [due_todo ''t-1'' 1100, due_todo ''t-2'' 1200] \<and>
   DueDateRemindersJob_Run (GetTodosDueInHours sample_env due_db) small_batch flaky_client =
     (Returned None,
      flaky_client\<lparr>queue :=
        [\<lparr>q_Type = TaskReminderEmail,
          q_Payload = \<lparr>task_UserID = ''alice'', task_TodoID = ''t-2'', task_TodoTitle = ''Plan trip'',
                       task_DueDate = 1200, task_TaskType = ''due_date_reminder''\<rparr>,
          q_Queue = ''critical'', q_MaxRetry = 3, q_Timeout = 300, q_ProcessIn = 10\<rparr>]\<rparr>,
      [\<lparr>l_level = InfoLevel, l_msg = ''Found todos due soon'', l_fields = [(''todo_count'', LogInt 2)]\<rparr>,
       \<lparr>l_level = ErrorLevel, l_msg = ''Failed to enqueue reminder email'',
        l_fields = [(''error'', LogStr ''redis: connection refused''), (''todo_id'', LogStr ''t-1'')]\<rparr>,
       \<lparr>l_level = InfoLevel, l_msg = ''Due date reminder emails enqueued'',
        l_fields = [(''enqueued_count'', LogInt 1), (''total_todos'', LogInt 2)]\<rparr>])"
proof -
  have a: "0 \<le> BatchSize small_batch" by (simp add: small_batch_def)
  have b: "env_query_err sample_env = None" by (simp add: sample_env_def)
  have sel: "GetTodosDueInHours sample_env due_db (ReminderHours small_batch) (BatchSize small_batch) =
     Inr [due_todo ''t-1'' 1100, due_todo ''t-2'' 1200]"
    by (simp add: GetTodosDueInHours_def sample_env_def due_db_def small_batch_def due_within_def
        due_todo_def root_todo_def)
  have acc1: "\<not> accepted (enqueue_err flaky_client) (due_todo ''t-1'' 1100)"
    and acc2: "accepted (enqueue_err flaky_client) (due_todo ''t-2'' 1200)"
    by (simp_all add: accepted_def flaky_client_def due_todo_def reminder_for_def)
  have q2: "queued_for (due_todo ''t-2'' 1200) =
        [\<lparr>q_Type = TaskReminderEmail,
          q_Payload = \<lparr>task_UserID = ''alice'', task_TodoID = ''t-2'', task_TodoTitle = ''Plan trip'',
                       task_DueDate = 1200, task_TaskType = ''due_date_reminder''\<rparr>,
          q_Queue = ''critical'', q_MaxRetry = 3, q_Timeout = 300, q_ProcessIn = 10\<rparr>]"
    by (simp add: queued_for_def due_todo_def reminder_for_def root_todo_def)
  have f1: "failure_entries (enqueue_err flaky_client) (due_todo ''t-1'' 1100) =
       [\<lparr>l_level = ErrorLevel, l_msg = ''Failed to enqueue reminder email'',
        l_fields = [(''error'', LogStr ''redis: connection refused''), (''todo_id'', LogStr ''t-1'')]\<rparr>]"
    and f2: "failure_entries (enqueue_err flaky_client) (due_todo ''t-2'' 1200) = []"
    by (simp_all add: failure_entries_def flaky_client_def due_todo_def reminder_for_def
        enqueue_failure_entry_def)
  have q0: "queue flaky_client = []" by (simp add: flaky_client_def)
  from DueDateRemindersJob_Run_partial_success [OF a b, of due_db flaky_client] sel
  have "DueDateRemindersJob_Run (GetTodosDueInHours sample_env due_db) small_batch flaky_client =
     (Returned None,
      flaky_client\<lparr>queue := queue flaky_client @
         concat (map queued_for (filter (accepted (enqueue_err flaky_client))
                                   [due_todo ''t-1'' 1100, due_todo ''t-2'' 1200]))\<rparr>,
      [count_entry ''Found todos due soon''
         [(''todo_count'', int (length [due_todo ''t-1'' 1100, due_todo ''t-2'' 1200]))]] @
      concat (map (failure_entries (enqueue_err flaky_client))
                [due_todo ''t-1'' 1100, due_todo ''t-2'' 1200]) @
      [count_entry ''Due date reminder emails enqueued''
         [(''enqueued_count'', int (length (filter (accepted (enqueue_err flaky_client))
                                   [due_todo ''t-1'' 1100, due_todo ''t-2'' 1200]))),
          (''total_todos'', int (length [due_todo ''t-1'' 1100, due_todo ''t-2'' 1200]))]])"
    by auto
  then show ?thesis
    using a b sel by (simp add: acc1 acc2 q2 f1 f2 q0 count_entry_def)
qed

section \<open>Properties of the attachment upload\<close>

lemma upload_then_failed_insert:
  assumes "chk db userID todoID = Inr t" and "f_open_err file = None" and "upload_err s3 = None"
    and "repo db todoID userID (''attachments/'' @ userID @ ''/'' @ todoID @ ''/'' @ new_uuid)
           (f_Filename file) (f_Size file) (f_ContentType file) = (Inl err, db')"
  shows "TodoService_UploadTodoAttachment chk repo new_uuid db s3 userID todoID file =
           (Inl err, db',
            snd (S3_DeleteFile
                   (s3\<lparr>s3_calls := s3_calls s3 @
                          [S3Upload (''attachments/'' @ userID @ ''/'' @ todoID @ ''/'' @ new_uuid)],
                       objects := (objects s3)
                          (''attachments/'' @ userID @ ''/'' @ todoID @ ''/'' @ new_uuid \<mapsto>
                             (f_Content file, f_ContentType file))\<rparr>)
                   (''attachments/'' @ userID @ ''/'' @ todoID @ ''/'' @ new_uuid)))"
  using assms
  by (simp add: TodoService_UploadTodoAttachment_def S3_UploadFile_def Let_def)

text \<open>
  C10, as amended. When the upload to the object store succeeds and the insert of the
  attachment's metadata fails, \<^verbatim>\<open>UploadTodoAttachment\<close> calls the object store's delete on
  the key it has just uploaded, and then returns the insert's error. When that delete
  succeeds the key is gone and the object store holds no key it did not hold before.
  The result of the delete is dropped: when the delete fails, the uploaded object stays.
\<close>

theorem UploadTodoAttachment_deletes_after_failed_insert:
  assumes "chk db userID todoID = Inr t" and "f_open_err file = None" and "upload_err s3 = None"
    and "repo db todoID userID (''attachments/'' @ userID @ ''/'' @ todoID @ ''/'' @ new_uuid)
           (f_Filename file) (f_Size file) (f_ContentType file) = (Inl err, db')"
  shows "\<exists>s3'.
           TodoService_UploadTodoAttachment chk repo new_uuid db s3 userID todoID file =
             (Inl err, db', s3') \<and>
           s3_calls s3' = s3_calls s3 @
             [S3Upload (''attachments/'' @ userID @ ''/'' @ todoID @ ''/'' @ new_uuid),
              S3Delete (''attachments/'' @ userID @ ''/'' @ todoID @ ''/'' @ new_uuid)] \<and>
           upload_err s3' = upload_err s3 \<and> delete_err s3' = delete_err s3 \<and>
           (delete_err s3 = None \<longrightarrow>
              objects s3' = (objects s3)(''attachments/'' @ userID @ ''/'' @ todoID @ ''/'' @ new_uuid := None) \<and>
              dom (objects s3') \<subseteq> dom (objects s3)) \<and>
           (delete_err s3 \<noteq> None \<longrightarrow>
              objects s3' (''attachments/'' @ userID @ ''/'' @ todoID @ ''/'' @ new_uuid) =
                Some (f_Content file, f_ContentType file))"
  unfolding upload_then_failed_insert [where chk = chk and repo = repo, OF assms]
  by (auto simp: S3_DeleteFile_def Let_def split: option.splits)

theorem UploadTodoAttachment_deletes_after_failed_insert_witness:
  "CheckTodoExists sample_db ''alice'' ''t-1'' = Inr root_todo \<and>
   f_open_err report_pdf = None \<and> upload_err empty_s3 = None \<and> delete_err empty_s3 = None \<and>
   TodoService_UploadTodoAttachment CheckTodoExists (TodoRepository_UploadTodoAttachment insert_refused)
       ''u-7'' sample_db empty_s3 ''alice'' ''t-1'' report_pdf =
     (Inl (OtherErr ''connection reset by peer''),
      sample_db\<lparr>statements := [''INSERT INTO todo_attachments'']\<rparr>,
      empty_s3\<lparr>s3_calls := [S3Upload ''attachments/alice/t-1/u-7'', S3Delete ''attachments/alice/t-1/u-7'']\<rparr>)"
proof -
  have a: "CheckTodoExists sample_db ''alice'' ''t-1'' = Inr root_todo"
    by (simp add: CheckTodoExists_def sample_db_def root_todo_def sub_todo_def)
  have b: "f_open_err report_pdf = None" by (simp add: report_pdf_def)
  have c: "upload_err empty_s3 = None" and d: "delete_err empty_s3 = None"
    by (simp_all add: empty_s3_def)
  have e: "TodoRepository_UploadTodoAttachment insert_refused sample_db ''t-1'' ''alice''
             (''attachments/'' @ ''alice'' @ ''/'' @ ''t-1'' @ ''/'' @ ''u-7'')
             (f_Filename report_pdf) (f_Size report_pdf) (f_ContentType report_pdf) =
           (Inl (OtherErr ''connection reset by peer''),
            sample_db\<lparr>statements := [''INSERT INTO todo_attachments'']\<rparr>)"
    by (simp add: TodoRepository_UploadTodoAttachment_def insert_refused_def sample_env_def
        sample_db_def)
  from UploadTodoAttachment_deletes_after_failed_insert
         [where chk = CheckTodoExists and repo = "TodoRepository_UploadTodoAttachment insert_refused"
            and ?s3.0 = empty_s3, OF a b c e] d
  obtain s3' where
    r: "TodoService_UploadTodoAttachment CheckTodoExists (TodoRepository_UploadTodoAttachment insert_refused)
          ''u-7'' sample_db empty_s3 ''alice'' ''t-1'' report_pdf =
        (Inl (OtherErr ''connection reset by peer''),
         sample_db\<lparr>statements := [''INSERT INTO todo_attachments'']\<rparr>, s3')"
    and calls: "s3_calls s3' = s3_calls empty_s3 @
             [S3Upload (''attachments/'' @ ''alice'' @ ''/'' @ ''t-1'' @ ''/'' @ ''u-7''),
              S3Delete (''attachments/'' @ ''alice'' @ ''/'' @ ''t-1'' @ ''/'' @ ''u-7'')]"
    and objs: "objects s3' = (objects empty_s3)(''attachments/'' @ ''alice'' @ ''/'' @ ''t-1'' @ ''/'' @ ''u-7'' := None)"
    and errs: "upload_err s3' = upload_err empty_s3" "delete_err s3' = delete_err empty_s3"
    by blast
  have "s3' = empty_s3\<lparr>s3_calls := [S3Upload ''attachments/alice/t-1/u-7'', S3Delete ''attachments/alice/t-1/u-7'']\<rparr>"
    by (rule S3.equality) (simp_all add: calls objs errs, simp_all add: empty_s3_def)
  with r a b c d show ?thesis by simp
qed

text \<open>
  C10, as stated, fails: the upload succeeds, the insert fails and the delete fails too;
  the insert's error is returned and the object uploaded under a key that was free
  before the call is still in the object store.
\<close>

theorem UploadTodoAttachment_failed_delete_counterexample:
  "CheckTodoExists sample_db ''alice'' ''t-1'' = Inr root_todo \<and>
   f_open_err report_pdf = None \<and>
   upload_err (empty_s3\<lparr>delete_err := Some (OtherErr ''request timeout'')\<rparr>) = None \<and>
   objects (empty_s3\<lparr>delete_err := Some (OtherErr ''request timeout'')\<rparr>) ''attachments/alice/t-1/u-7'' = None \<and>
   fst (TodoService_UploadTodoAttachment CheckTodoExists (TodoRepository_UploadTodoAttachment insert_refused)
       ''u-7'' sample_db (empty_s3\<lparr>delete_err := Some (OtherErr ''request timeout'')\<rparr>)
       ''alice'' ''t-1'' report_pdf) = Inl (OtherErr ''connection reset by peer'') \<and>
   objects (snd (snd (TodoService_UploadTodoAttachment CheckTodoExists
       (TodoRepository_UploadTodoAttachment insert_refused)
       ''u-7'' sample_db (empty_s3\<lparr>delete_err := Some (OtherErr ''request timeout'')\<rparr>)
       ''alice'' ''t-1'' report_pdf))) ''attachments/alice/t-1/u-7'' = Some (''%PDF'', ''application/pdf'')"
proof -
  have a: "CheckTodoExists sample_db ''alice'' ''t-1'' = Inr root_todo"
    by (simp add: CheckTodoExists_def sample_db_def root_todo_def sub_todo_def)
  have e: "TodoRepository_UploadTodoAttachment insert_refused sample_db ''t-1'' ''alice''
             ''attachments/alice/t-1/u-7'' ''report.pdf'' 4 ''application/pdf'' =
           (Inl (OtherErr ''connection reset by peer''),
            sample_db\<lparr>statements := [''INSERT INTO todo_attachments'']\<rparr>)"
    by (simp add: TodoRepository_UploadTodoAttachment_def insert_refused_def sample_env_def
        sample_db_def)
  show ?thesis
    using a
    by (simp add: TodoService_UploadTodoAttachment_def S3_UploadFile_def S3_DeleteFile_def
        Let_def e empty_s3_def report_pdf_def)
qed

end
